theory Spec2Isabelle
  imports Main "HOL-Library.AList"
begin

section \<open>Go values shared by the whole development\<close>

text \<open>
  Go strings and byte slices are both sequences of bytes; an Isabelle \<open>char\<close> is one
  byte, so both are modelled as \<open>string\<close>. An \<open>error\<close> value is represented by its
  \<open>Error()\<close> text, and a nil error by \<open>None\<close>.
\<close>

type_synonym byte = char
type_synonym error = string

section \<open>Go slices\<close>

text \<open>
  A slice is a window on a backing array: \<open>Slice a n\<close> has the elements of the array
  from the slice's first element up to its capacity in \<open>a\<close> (so \<open>cap\<close> is
  \<open>length a\<close>) and length \<open>n\<close>. Elements beyond the length are in memory but not
  visible through the slice. The nil slice has length and capacity 0.
\<close>

datatype 'a slice = NilSlice | Slice "'a list" nat

fun go_len :: "'a slice \<Rightarrow> nat" where
  "go_len NilSlice = 0"
| "go_len (Slice a n) = n"

fun go_cap :: "'a slice \<Rightarrow> nat" where
  "go_cap NilSlice = 0"
| "go_cap (Slice a n) = length a"

fun backing :: "'a slice \<Rightarrow> 'a list" where
  "backing NilSlice = []"
| "backing (Slice a n) = a"

definition elems :: "'a slice \<Rightarrow> 'a list" where
  "elems s = take (go_len s) (backing s)"

text \<open>\<open>make([]T, n, c)\<close> with the zero value \<open>z\<close> of \<open>T\<close>.\<close>

definition go_make :: "'a \<Rightarrow> nat \<Rightarrow> nat \<Rightarrow> 'a slice" where
  "go_make z n c = Slice (replicate c z) n"

text \<open>
  \<open>s[lo:hi]\<close>. Go panics unless \<open>lo \<le> hi \<le> cap(s)\<close>; every use below is in range,
  which is noted where it is used. The result shares the backing array of \<open>s\<close>.
\<close>

definition reslice :: "'a slice \<Rightarrow> nat \<Rightarrow> nat \<Rightarrow> 'a slice" where
  "reslice s lo hi = (case s of NilSlice \<Rightarrow> NilSlice | Slice a n \<Rightarrow> Slice (drop lo a) (hi - lo))"

text \<open>
  Storing the elements \<open>xs\<close> into the backing array of \<open>s\<close> from index \<open>lo\<close> on.
  The length of the slice does not change.
\<close>

definition store :: "'a slice \<Rightarrow> nat \<Rightarrow> 'a list \<Rightarrow> 'a slice" where
  "store s lo xs =
     (case s of NilSlice \<Rightarrow> NilSlice
      | Slice a n \<Rightarrow> Slice (take lo a @ take (length a - lo) xs @ drop (lo + length xs) a) n)"

text \<open>
  \<open>copy(dst, src)\<close> copies \<open>min(len(dst), len(src))\<close> elements and returns that
  number; the second component is \<open>dst\<close> afterwards.
\<close>

definition go_copy :: "'a slice \<Rightarrow> 'a slice \<Rightarrow> nat \<times> 'a slice" where
  "go_copy dst src =
     (let n = min (go_len dst) (go_len src) in (n, store dst 0 (take n (elems src))))"

section \<open>internal/tlsmux/peek\_conn.go\<close>

text \<open>
  The underlying \<open>net.Conn\<close> is outside the repository. It is modelled by the segments
  that will still arrive on it, after which the peer has closed: a \<open>Read\<close> into a buffer
  of \<open>k\<close> bytes returns at most \<open>k\<close> bytes of the first segment and leaves the rest
  of it for the next \<open>Read\<close>; with no segment left it returns \<open>io.EOF\<close>. A \<open>Read\<close>
  into an empty buffer returns \<open>0, nil\<close>. \<open>original_destination\<close> is \<open>Some\<close> exactly
  when the connection's dynamic type has the method \<open>OriginalDestination\<close>.
\<close>

record rawConn =
  conn_id :: nat
  incoming :: "string list"
  original_destination :: "(bool \<times> string) option"

definition Conn_Read :: "rawConn \<Rightarrow> nat \<Rightarrow> string \<times> error option \<times> rawConn" where
  "Conn_Read c k =
     (if k = 0 then ([], None, c)
      else (case incoming c of
              [] \<Rightarrow> ([], Some ''EOF'', c)
            | seg # rest \<Rightarrow>
                (take k seg, None,
                 c\<lparr>incoming := (if length seg \<le> k then rest else drop k seg # rest)\<rparr>)))"

record peekConn =
  Conn :: rawConn
  peeked :: "byte slice"

definition NewPeekConn :: "rawConn \<Rightarrow> peekConn" where
  "NewPeekConn c = \<lparr>Conn = c, peeked = NilSlice\<rparr>"

definition zero_byte :: byte where
  "zero_byte = CHR 0x00"

text \<open>
  \<open>peekConn.Peek(b)\<close>. The result is \<open>((n, err), b', p')\<close>: the two values returned,
  the caller's buffer and the connection afterwards. In \<open>p.peeked[len(p.peeked):size]\<close>
  the bounds are in range, since by then \<open>cap(p.peeked) \<ge> size\<close>. The number of bytes
  that \<open>p.Conn.Read\<close> returns is discarded by the source (\<open>_, err = ...\<close>): the bytes are
  stored in the backing array of \<open>p.peeked\<close>, whose length stays as it was.
\<close>

definition Peek :: "peekConn \<Rightarrow> byte slice \<Rightarrow> (nat \<times> error option) \<times> byte slice \<times> peekConn" where
  "Peek p b =
     (let size = go_cap b;
          p1 = (if go_cap (peeked p) < size
                then (let peek = go_make zero_byte 0 size;
                          peek' = (if peeked p \<noteq> NilSlice then snd (go_copy peek (peeked p))
                                   else peek)
                      in p\<lparr>peeked := peek'\<rparr>)
                else p);
          (err, p2) = (if go_len (peeked p1) < size
                       then (let (bs, e, c') = Conn_Read (Conn p1) (size - go_len (peeked p1))
                             in (e, p1\<lparr>Conn := c',
                                      peeked := store (peeked p1) (go_len (peeked p1)) bs\<rparr>))
                       else (None, p1));
          b' = snd (go_copy b (peeked p2))
      in ((go_len (peeked p2), err), b', p2))"

text \<open>
  \<open>peekConn.Read(b)\<close>, with the same shape of result. The slice expressions are in
  range: \<open>p.peeked[:size]\<close> and \<open>p.peeked[size:]\<close> are taken when
  \<open>len(p.peeked) > size\<close>, and \<open>b[size:]\<close> when \<open>size = len(peek) \<le> len(b)\<close>.
\<close>

definition peekConn_Read :: "peekConn \<Rightarrow> byte slice \<Rightarrow> (nat \<times> error option) \<times> byte slice \<times> peekConn" where
  "peekConn_Read p b =
     (if peeked p = NilSlice
      then (let (bs, e, c') = Conn_Read (Conn p) (go_len b)
            in ((length bs, e), store b 0 bs, p\<lparr>Conn := c'\<rparr>))
      else (let size = go_len b;
                (peek, p1) = (if go_len (peeked p) > size
                              then (reslice (peeked p) 0 size,
                                    p\<lparr>peeked := reslice (peeked p) size (go_len (peeked p))\<rparr>)
                              else (peeked p, p\<lparr>peeked := NilSlice\<rparr>));
                b1 = snd (go_copy b peek);
                size' = go_len peek;
                (bs, e, c') = Conn_Read (Conn p1) (go_len b - size')
            in ((length bs + size', e), store b1 size' bs, p1\<lparr>Conn := c'\<rparr>)))"

text \<open>The bytes a \<open>Peek\<close> or a \<open>Read\<close> hands to its caller: the first \<open>n\<close> bytes of the buffer.\<close>

definition delivered :: "(nat \<times> error option) \<times> byte slice \<times> peekConn \<Rightarrow> string" where
  "delivered r = take (fst (fst r)) (elems (fst (snd r)))"

definition conn_after :: "(nat \<times> error option) \<times> byte slice \<times> peekConn \<Rightarrow> peekConn" where
  "conn_after r = snd (snd r)"

section \<open>Regular expressions of the classifiers\<close>

text \<open>
  The two patterns are compiled by Go's \<open>regexp\<close> package, which is outside the
  repository. Its syntax is modelled by the constructs the two patterns use: a literal,
  a byte class \<open>[lo-hi]\<close>, the assertion \<open>^\<close> (beginning of the text, as no flag is
  set), concatenation, and alternation, which binds weaker than concatenation. Groups only
  capture and do not change what matches. \<open>rmatch r inp i\<close> lists the positions where a
  match of \<open>r\<close> that starts at position \<open>i\<close> of \<open>inp\<close> can end, and
  \<open>Regexp_Match\<close> is \<open>Regexp.Match\<close>: whether the pattern matches anywhere in the text.
\<close>

datatype regex =
    Lit string
  | ByteRange nat nat
  | BeginText
  | Seq regex regex
  | Alt regex regex

fun rmatch :: "regex \<Rightarrow> string \<Rightarrow> nat \<Rightarrow> nat list" where
  "rmatch (Lit s) inp i = (if take (length s) (drop i inp) = s then [i + length s] else [])"
| "rmatch (ByteRange lo hi) inp i =
     (if i < length inp \<and> lo \<le> of_char (inp ! i) \<and> (of_char (inp ! i) :: nat) \<le> hi
      then [Suc i] else [])"
| "rmatch BeginText inp i = (if i = 0 then [i] else [])"
| "rmatch (Seq a b) inp i = concat (map (rmatch b inp) (rmatch a inp i))"
| "rmatch (Alt a b) inp i = rmatch a inp i @ rmatch b inp i"

definition Regexp_Match :: "regex \<Rightarrow> string \<Rightarrow> bool" where
  "Regexp_Match r inp = list_ex (\<lambda>i. rmatch r inp i \<noteq> []) [0 ..< Suc (length inp)]"

text \<open>
  \<open>^\x16\x03[\x00-\x04]\<close> of \<open>WithTLSMiddleware\<close>.
\<close>

definition tls_peekPattern :: regex where
  "tls_peekPattern =
     Seq BeginText (Seq (Lit [CHR 0x16]) (Seq (Lit [CHR 0x03]) (ByteRange 0 4)))"

text \<open>
  \<open>^(CONNECT)|(DELETE)|(GET)|(HEAD)|(OPTIONS)|(PATCH)|(POST)|(PUT)|(TRACE) \<close> of
  \<open>WithHTTPMiddleware\<close>. As alternation binds weakest, \<open>^\<close> belongs to the first
  alternative only and the final space to the last one only.
\<close>

definition http_peekPattern :: regex where
  "http_peekPattern =
     Alt (Seq BeginText (Lit ''CONNECT''))
    (Alt (Lit ''DELETE'')
    (Alt (Lit ''GET'')
    (Alt (Lit ''HEAD'')
    (Alt (Lit ''OPTIONS'')
    (Alt (Lit ''PATCH'')
    (Alt (Lit ''POST'')
    (Alt (Lit ''PUT'')
         (Seq (Lit ''TRACE'') (Lit '' '')))))))))"

section \<open>internal/tlsmux/mux\_listener.go and the middleware of tls\_mux.go\<close>

text \<open>
  A \<open>net.Conn\<close> interface value, by dynamic type: a connection of the underlying
  listener, a \<open>*peekConn\<close>, or a \<open>*patternConn\<close> (a \<open>PeekConn\<close> and the time \<open>t\<close>
  of its creation; the \<open>PeekConn\<close> in it is always a \<open>*peekConn\<close>, the only other
  implementation being \<open>*patternConn\<close> itself, which is never wrapped again).
\<close>

datatype conn = Raw rawConn | PeekC peekConn | PatternC peekConn int

text \<open>
  What the middleware of \<open>New\<close> acts on besides the connection: the two connection
  channels (a send appends; the channels' bound of 128, at which a sender blocks, is not
  modelled), the connections handed to a forwarding goroutine, and the clock, of which
  \<open>time.Now()\<close> takes the next reading.
\<close>

record world =
  tlsConns :: "conn list"
  nonTLSConns :: "conn list"
  forwarded :: "conn list"
  clock :: "nat \<Rightarrow> int"
  ticks :: nat

definition time_Now :: "world \<Rightarrow> int \<times> world" where
  "time_Now w = (clock w (ticks w), w\<lparr>ticks := Suc (ticks w)\<rparr>)"

text \<open>
  A \<open>ListenerMiddleware\<close> returns \<open>(net.Conn, error)\<close>, or panics. The outer \<open>option\<close>
  is \<open>None\<close> when the call does not return.
\<close>

datatype mw_result = Return "conn option" "error option" | Panicked string

type_synonym ListenerMiddleware = "conn \<Rightarrow> world \<Rightarrow> (mw_result \<times> world) option"

record listener =
  features_peekConn_enable :: bool
  middles :: "ListenerMiddleware list"

type_synonym ListenerOptions = "listener \<Rightarrow> listener"

definition WithPeekConn :: ListenerOptions where
  "WithPeekConn l = l\<lparr>features_peekConn_enable := True\<rparr>"

definition WithMiddleware :: "ListenerMiddleware \<Rightarrow> ListenerOptions" where
  "WithMiddleware middle l = l\<lparr>middles := middles l @ [middle]\<rparr>"

text \<open>
  The inner loop of \<open>WithPatternMiddleware\<close>:
  \<open>for n < size && err == nil { n, err = conn.Peek(data[:size]); ... }\<close>. \<open>conn.Peek\<close>
  is the promoted \<open>peekConn.Peek\<close>; \<open>data[:size]\<close> shares the array of \<open>data\<close>, so
  what \<open>Peek\<close> copies into it shows in \<open>data\<close>. \<open>cap(data) \<ge> size\<close> holds by then.
  With a timeout other than 0 nothing in the loop bounds the number of rounds but the clock.
\<close>

type_synonym peek_state = "nat \<times> error option \<times> peekConn \<times> byte slice \<times> world"

partial_function (option) peek_loop :: "int \<Rightarrow> int \<Rightarrow> nat \<Rightarrow> peek_state \<Rightarrow> peek_state option" where
  "peek_loop timeout deadline sz st =
     (case st of (n, err, p, data, w) \<Rightarrow>
        if n < sz \<and> err = None
        then (let r = Peek p (reslice data 0 sz);
                  n' = fst (fst r); err' = snd (fst r); p' = snd (snd r);
                  data' = Slice (backing (fst (snd r))) (go_len data)
              in if timeout = 0 then Some (n', err', p', data', w)
                 else (let t = time_Now w
                       in if fst t > deadline then Some (n', err', p', data', snd t)
                          else peek_loop timeout deadline sz (n', err', p', data', snd t)))
        else Some st)"

declare peek_loop.simps [code]

text \<open>
  The loop over \<open>peekSizes\<close>, and the closure that \<open>WithPatternMiddleware\<close> hands to
  \<open>WithMiddleware\<close>. The sizes are the non-negative \<open>int\<close>s of the source; \<open>sz\<close> is its \<open>size\<close>.
\<close>

fun sizes_loop ::
  "regex \<Rightarrow> nat list \<Rightarrow> int \<Rightarrow> ListenerMiddleware \<Rightarrow> peekConn \<Rightarrow> int \<Rightarrow> byte slice \<Rightarrow> world
   \<Rightarrow> (mw_result \<times> world) option" where
  "sizes_loop pattern [] timeout middle p t data w = Some (Return (Some (PatternC p t)) None, w)"
| "sizes_loop pattern (sz # rest) timeout middle p t data w =
     (let data1 = (if go_cap data < sz then go_make zero_byte sz sz else data);
          deadline = t + timeout
      in case peek_loop timeout deadline sz (0, None, p, data1, w) of
           None \<Rightarrow> None
         | Some (n, err, p', data2, w') \<Rightarrow>
             if n < sz then Some (Return (Some (PatternC p' t)) None, w')
             else if Regexp_Match pattern (elems data2) then middle (PatternC p' t) w'
             else sizes_loop pattern rest timeout middle p' t data2 w')"

definition pattern_middle ::
  "regex \<Rightarrow> nat list \<Rightarrow> int \<Rightarrow> ListenerMiddleware \<Rightarrow> ListenerMiddleware" where
  "pattern_middle pattern peekSizes timeout middle c w =
     (case c of
        PatternC p t \<Rightarrow> sizes_loop pattern peekSizes timeout middle p t (go_make zero_byte 8 8) w
      | PeekC p \<Rightarrow>
          (let (t, w') = time_Now w
           in sizes_loop pattern peekSizes timeout middle p t (go_make zero_byte 8 8) w')
      | Raw r \<Rightarrow> Some (Panicked ''interface conversion: net.Conn is not tlsmux.PeekConn'', w))"

definition WithPatternMiddleware ::
  "regex \<Rightarrow> nat list \<Rightarrow> int \<Rightarrow> ListenerMiddleware \<Rightarrow> ListenerOptions" where
  "WithPatternMiddleware pattern peekSizes timeout middle =
     WithMiddleware (pattern_middle pattern peekSizes timeout middle)"

definition WithTLSMiddleware :: "ListenerMiddleware \<Rightarrow> int \<Rightarrow> ListenerOptions" where
  "WithTLSMiddleware middle timeout = WithPatternMiddleware tls_peekPattern [3] timeout middle"

definition WithHTTPMiddleware :: "ListenerMiddleware \<Rightarrow> int \<Rightarrow> ListenerOptions" where
  "WithHTTPMiddleware middle timeout =
     WithPatternMiddleware http_peekPattern [4, 5, 6, 7, 8] timeout middle"

text \<open>\<open>NewListener\<close> applies the options in order to a listener with nothing enabled.\<close>

definition NewListener :: "ListenerOptions list \<Rightarrow> listener" where
  "NewListener opts = foldl (\<lambda>l opt. opt l) \<lparr>features_peekConn_enable = False, middles = []\<rparr> opts"

text \<open>
  The \<open>for _, middle := range m.middles\<close> loop of \<open>listener.Accept\<close> on one accepted
  connection: an error ends \<open>Accept\<close>, a nil connection ends the loop (the connection
  was taken), otherwise the next middleware receives the connection returned.
\<close>

datatype chain_result = Failed error | Taken | Passed conn | ChainPanic string

fun run_middles :: "ListenerMiddleware list \<Rightarrow> conn \<Rightarrow> world \<Rightarrow> (chain_result \<times> world) option" where
  "run_middles [] c w = Some (Passed c, w)"
| "run_middles (middle # ms) c w =
     (case middle c w of
        None \<Rightarrow> None
      | Some (Panicked msg, w') \<Rightarrow> Some (ChainPanic msg, w')
      | Some (Return c' (Some err), w') \<Rightarrow> Some (Failed err, w')
      | Some (Return None None, w') \<Rightarrow> Some (Taken, w')
      | Some (Return (Some c') None, w') \<Rightarrow> run_middles ms c' w')"

text \<open>
  \<open>listener.Accept\<close>. The underlying listener is modelled by the results its \<open>Accept\<close>
  will still return; when there are none left, \<open>Accept\<close> blocks and never returns.
  The result holds what \<open>Accept\<close> returns and the results the underlying listener has left.
\<close>

fun Accept ::
  "listener \<Rightarrow> (error + rawConn) list \<Rightarrow> world
   \<Rightarrow> (chain_result \<times> (error + rawConn) list \<times> world) option" where
  "Accept m [] w = None"
| "Accept m (Inl err # pending) w = Some (Failed err, pending, w)"
| "Accept m (Inr raw # pending) w =
     (let c = (if features_peekConn_enable m then PeekC (NewPeekConn raw) else Raw raw)
      in case run_middles (middles m) c w of
           None \<Rightarrow> None
         | Some (Taken, w') \<Rightarrow> Accept m pending w'
         | Some (r, w') \<Rightarrow> Some (r, pending, w'))"

text \<open>
  The options of \<open>New\<close> (lines 57 to 102). The first two closures send the connection on
  a channel and return \<open>nil, nil\<close>. The third asserts the interface \<open>proxiedConnection\<close>,
  which only a connection of the underlying listener can have: \<open>*peekConn\<close> and
  \<open>*patternConn\<close> embed interfaces without the method \<open>OriginalDestination\<close>. When the
  assertion holds the connection goes to a goroutine that dials and forwards.
\<close>

definition send_tls :: ListenerMiddleware where
  "send_tls c w = Some (Return None None, w\<lparr>tlsConns := tlsConns w @ [c]\<rparr>)"

definition send_nonTLS :: ListenerMiddleware where
  "send_nonTLS c w = Some (Return None None, w\<lparr>nonTLSConns := nonTLSConns w @ [c]\<rparr>)"

fun proxiedConnection :: "conn \<Rightarrow> bool" where
  "proxiedConnection (Raw r) = (original_destination r \<noteq> None)"
| "proxiedConnection (PeekC p) = False"
| "proxiedConnection (PatternC p t) = False"

definition fallback :: ListenerMiddleware where
  "fallback c w =
     (if \<not> proxiedConnection c then Some (Return (Some c) None, w)
      else Some (Return None None, w\<lparr>forwarded := forwarded w @ [c]\<rparr>))"

definition New_opts :: "ListenerOptions list" where
  "New_opts =
     [WithPeekConn, WithTLSMiddleware send_tls 0, WithHTTPMiddleware send_nonTLS 0,
      WithMiddleware fallback]"

definition hlisten :: listener where
  "hlisten = NewListener New_opts"

section \<open>internal/tlsmux/tls\_mux.go: the derived listeners and their closer\<close>

text \<open>
  \<open>New\<close> builds two \<open>tlsMuxListener\<close> values that hold the same underlying
  \<open>net.Listener\<close> and the same \<open>*sync.Once\<close>. Both are pointers, so the objects they
  point to live in a heap indexed by address. The underlying listener is outside the
  repository: all that is recorded of it is how many times its \<open>Close\<close> has been
  invoked and which error the k-th invocation returns.
\<close>

record netListener =
  ln_close_calls :: nat
  ln_close_err :: "nat \<Rightarrow> error option"

record heap =
  onces :: "nat \<Rightarrow> bool"
  next_once :: nat
  listeners :: "nat \<Rightarrow> netListener"

record tlsMuxListener =
  Listener :: nat
  close :: nat

text \<open>\<open>net.Listener.Close\<close> of the underlying listener at address \<open>l\<close>.\<close>

definition Listener_Close :: "nat \<Rightarrow> heap \<Rightarrow> error option \<times> heap" where
  "Listener_Close l h =
     (let ln = listeners h l
      in (ln_close_err ln (ln_close_calls ln),
          h\<lparr>listeners := (listeners h)(l := ln\<lparr>ln_close_calls := Suc (ln_close_calls ln)\<rparr>)\<rparr>))"

text \<open>
  \<open>sync.Once.Do(f)\<close>: runs \<open>f\<close> if and only if \<open>Do\<close> is called for the first time
  on this \<open>Once\<close>. The result is \<open>None\<close> when \<open>f\<close> did not run.
\<close>

definition Once_Do :: "nat \<Rightarrow> (heap \<Rightarrow> 'r \<times> heap) \<Rightarrow> heap \<Rightarrow> 'r option \<times> heap" where
  "Once_Do a f h =
     (if onces h a then (None, h)
      else (let (r, h') = f h in (Some r, h'\<lparr>onces := (onces h')(a := True)\<rparr>)))"

text \<open>
  \<open>tlsMuxListener.Close\<close>: \<open>var err error; c.close.Do(func() { err = c.Listener.Close() });
  return err\<close>.
\<close>

definition tlsMuxListener_Close :: "tlsMuxListener \<Rightarrow> heap \<Rightarrow> error option \<times> heap" where
  "tlsMuxListener_Close c h =
     (case Once_Do (close c) (Listener_Close (Listener c)) h of
        (None, h') \<Rightarrow> (None, h')
      | (Some err, h') \<Rightarrow> (err, h'))"

text \<open>
  The two listeners \<open>New\<close> returns. The plaintext one is the \<open>tlsMuxListener\<close> itself;
  the TLS one is \<open>tls.NewListener(inner, config)\<close>, whose \<open>Close\<close> is the promoted
  \<open>Close\<close> of the listener it wraps.
\<close>

datatype derived = NonTLS tlsMuxListener | TLSWrapped tlsMuxListener

fun derived_Close :: "derived \<Rightarrow> heap \<Rightarrow> error option \<times> heap" where
  "derived_Close (NonTLS c) h = tlsMuxListener_Close c h"
| "derived_Close (TLSWrapped c) h = tlsMuxListener_Close c h"

text \<open>
  The part of \<open>New\<close> that builds the listeners (lines 124 to 143): \<open>closer := &sync.Once{}\<close>
  allocates a fresh \<open>Once\<close>, and both listeners receive \<open>listener\<close> and \<open>closer\<close>.
\<close>

definition New_listeners :: "nat \<Rightarrow> heap \<Rightarrow> derived \<times> derived \<times> heap" where
  "New_listeners listener h =
     (let closer = next_once h;
          h' = h\<lparr>onces := (onces h)(closer := False), next_once := Suc closer\<rparr>;
          nonTLSListener = NonTLS \<lparr>Listener = listener, close = closer\<rparr>;
          tlsListener = TLSWrapped \<lparr>Listener = listener, close = closer\<rparr>
      in (nonTLSListener, tlsListener, h'))"

text \<open>A sequence of \<open>Close\<close> calls, in the order given; the errors they return are collected.\<close>

fun closes :: "derived list \<Rightarrow> heap \<Rightarrow> error option list \<times> heap" where
  "closes [] h = ([], h)"
| "closes (d # ds) h =
     (let (e, h') = derived_Close d h; (es, h'') = closes ds h' in (e # es, h''))"

definition underlying_closes :: "nat \<Rightarrow> heap \<Rightarrow> nat" where
  "underlying_closes l h = ln_close_calls (listeners h l)"

section \<open>Library functions used by the HAR recorder\<close>

text \<open>
  A Go \<open>map[string][]string\<close> (\<open>http.Header\<close>, \<open>url.Values\<close>) is modelled as an
  association list; the order of the list stands for the order in which \<open>range\<close> happens
  to visit the map. The maps of requests and responses are never nil here: the reverse
  proxy hands over a request with a header map, and \<open>http.Transport\<close> returns responses
  with one.
\<close>

type_synonym header = "(string \<times> string list) list"

definition between :: "char \<Rightarrow> char \<Rightarrow> char \<Rightarrow> bool" where
  "between lo hi c \<longleftrightarrow> (of_char lo :: nat) \<le> of_char c \<and> (of_char c :: nat) \<le> of_char hi"

definition shift_char :: "char \<Rightarrow> int \<Rightarrow> char" where
  "shift_char c d = char_of (of_char c + d)"

text \<open>\<open>textproto.validHeaderFieldByte\<close>: the token characters of RFC 7230.\<close>

definition validHeaderFieldByte :: "char \<Rightarrow> bool" where
  "validHeaderFieldByte c \<longleftrightarrow>
     between CHR ''a'' CHR ''z'' c \<or> between CHR ''A'' CHR ''Z'' c \<or> between CHR ''0'' CHR ''9'' c
     \<or> c \<in> set ''!#$%&*+-.^_|~'' \<or> c = CHR 0x27 \<or> c = CHR 0x60"

text \<open>
  \<open>textproto.CanonicalMIMEHeaderKey\<close>: a key with a byte that is not a token character
  is returned as it is; otherwise the first letter and every letter after a hyphen are
  made upper case and all other letters lower case.
\<close>

fun canonical_from :: "bool \<Rightarrow> string \<Rightarrow> string" where
  "canonical_from upper [] = []"
| "canonical_from upper (c # cs) =
     (let c' = (if upper \<and> between CHR ''a'' CHR ''z'' c then shift_char c (- 32)
                else if \<not> upper \<and> between CHR ''A'' CHR ''Z'' c then shift_char c 32
                else c)
      in c' # canonical_from (c' = CHR ''-'') cs)"

definition CanonicalMIMEHeaderKey :: "string \<Rightarrow> string" where
  "CanonicalMIMEHeaderKey s = (if list_all validHeaderFieldByte s then canonical_from True s else s)"

definition Header_Set :: "header \<Rightarrow> string \<Rightarrow> string \<Rightarrow> header" where
  "Header_Set h key v = AList.update (CanonicalMIMEHeaderKey key) [v] h"

definition Header_Values :: "header \<Rightarrow> string \<Rightarrow> string list" where
  "Header_Values h key = (case map_of h (CanonicalMIMEHeaderKey key) of None \<Rightarrow> [] | Some vs \<Rightarrow> vs)"

definition Header_Add :: "header \<Rightarrow> string \<Rightarrow> string \<Rightarrow> header" where
  "Header_Add h key v = AList.update (CanonicalMIMEHeaderKey key) (Header_Values h key @ [v]) h"

definition Header_Del :: "header \<Rightarrow> string \<Rightarrow> header" where
  "Header_Del h key = AList.delete (CanonicalMIMEHeaderKey key) h"

definition Header_Get :: "header \<Rightarrow> string \<Rightarrow> string" where
  "Header_Get h key = (case Header_Values h key of [] \<Rightarrow> [] | v # _ \<Rightarrow> v)"

text \<open>\<open>strings.Join(elems, sep)\<close>.\<close>

fun strings_Join :: "string list \<Rightarrow> string \<Rightarrow> string" where
  "strings_Join [] sep = []"
| "strings_Join [x] sep = x"
| "strings_Join (x # y # ys) sep = x @ sep @ strings_Join (y # ys) sep"

text \<open>
  \<open>url.QueryUnescape\<close>. The first pass looks for a \<open>%\<close> that is not followed by two
  hexadecimal digits; if there is one the result is the empty string and an
  \<open>EscapeError\<close> that quotes the offending fragment. Otherwise every \<open>%XX\<close> becomes the
  byte it denotes and every \<open>+\<close> a space.
\<close>

definition ishex :: "char \<Rightarrow> bool" where
  "ishex c \<longleftrightarrow>
     between CHR ''0'' CHR ''9'' c \<or> between CHR ''a'' CHR ''f'' c \<or> between CHR ''A'' CHR ''F'' c"

definition unhex :: "char \<Rightarrow> nat" where
  "unhex c =
     (if between CHR ''0'' CHR ''9'' c then of_char c - of_char CHR ''0''
      else if between CHR ''a'' CHR ''f'' c then of_char c - of_char CHR ''a'' + 10
      else if between CHR ''A'' CHR ''F'' c then of_char c - of_char CHR ''A'' + 10
      else 0)"

fun bad_escape :: "string \<Rightarrow> string option" where
  "bad_escape [] = None"
| "bad_escape (c # cs) =
     (if c = CHR ''%''
      then (case cs of
              h1 # h2 # rest \<Rightarrow>
                if ishex h1 \<and> ishex h2 then bad_escape rest else Some (take 3 (c # cs))
            | _ \<Rightarrow> Some (take 3 (c # cs)))
      else bad_escape cs)"

fun unescape_bytes :: "string \<Rightarrow> string" where
  "unescape_bytes [] = []"
| "unescape_bytes (c # cs) =
     (if c = CHR ''%''
      then (case cs of
              h1 # h2 # rest \<Rightarrow> char_of (unhex h1 * 16 + unhex h2) # unescape_bytes rest
            | _ \<Rightarrow> [])
      else if c = CHR ''+'' then CHR '' '' # unescape_bytes cs
      else c # unescape_bytes cs)"

definition QueryUnescape :: "string \<Rightarrow> string \<times> error option" where
  "QueryUnescape s =
     (case bad_escape s of
        Some frag \<Rightarrow> ([], Some (''invalid URL escape '' @ [CHR 0x22] @ frag @ [CHR 0x22]))
      | None \<Rightarrow> (unescape_bytes s, None))"

text \<open>
  \<open>strings.Cut(s, sep)\<close> for a separator of one byte: the text before and after the
  first separator, or \<open>s\<close> and the empty string when there is none.
\<close>

fun strings_Cut :: "char \<Rightarrow> string \<Rightarrow> string \<times> string" where
  "strings_Cut sep [] = ([], [])"
| "strings_Cut sep (c # cs) =
     (if c = sep then ([], cs) else (c # fst (strings_Cut sep cs), snd (strings_Cut sep cs)))"

lemma length_snd_Cut: "length (snd (strings_Cut sep s)) \<le> length s - 1"
  by (induction s) (auto split: if_splits)

text \<open>
  \<open>url.ParseQuery\<close>, whose result \<open>URL.Query()\<close> returns (the error is dropped):
  the query is cut at every \<open>&\<close>; a setting that contains a semicolon, or is empty, or
  whose key or value has a malformed escape, is skipped; the key and the value of every
  other setting are query-unescaped and the value is appended to the values of the key.
\<close>

function parseQuery :: "header \<Rightarrow> string \<Rightarrow> header" where
  "parseQuery m query =
     (if query = [] then m
      else (let key = fst (strings_Cut CHR ''&'' query);
                rest = snd (strings_Cut CHR ''&'' query)
            in if CHR '';'' \<in> set key \<or> key = [] then parseQuery m rest
               else (let k = fst (strings_Cut CHR ''='' key);
                         v = snd (strings_Cut CHR ''='' key)
                     in if snd (QueryUnescape k) \<noteq> None \<or> snd (QueryUnescape v) \<noteq> None
                        then parseQuery m rest
                        else parseQuery
                               (AList.update (fst (QueryUnescape k))
                                  ((case map_of m (fst (QueryUnescape k)) of
                                      None \<Rightarrow> [] | Some vs \<Rightarrow> vs) @ [fst (QueryUnescape v)]) m)
                               rest)))"
  by pat_completeness auto
termination
proof (relation "measure (\<lambda>(m, query). length query)")
  show "wf (measure (\<lambda>(m, query). length query))" by simp
next
  fix m :: header and query key rest :: string
  assume "query \<noteq> []" and "rest = snd (strings_Cut CHR ''&'' query)"
  then show "((m, rest), (m, query)) \<in> measure (\<lambda>(m, query). length query)"
    using length_snd_Cut [of "CHR ''&''" query] by (cases query) auto
next
  fix m :: header and query key rest k v :: string
  assume "query \<noteq> []" and "rest = snd (strings_Cut CHR ''&'' query)"
  then show "((m, rest), (m, query)) \<in> measure (\<lambda>(m, query). length query)"
    using length_snd_Cut [of "CHR ''&''" query] by (cases query) auto
next
  fix m :: header and query key rest k v :: string
  assume "query \<noteq> []" and "rest = snd (strings_Cut CHR ''&'' query)"
  then show "((AList.update (fst (QueryUnescape k))
                ((case map_of m (fst (QueryUnescape k)) of None \<Rightarrow> [] | Some vs \<Rightarrow> vs)
                 @ [fst (QueryUnescape v)]) m, rest), (m, query))
              \<in> measure (\<lambda>(m, query). length query)"
    using length_snd_Cut [of "CHR ''&''" query] by (cases query) auto
qed

declare parseQuery.simps [simp del]

definition ParseQuery :: "string \<Rightarrow> header" where
  "ParseQuery query = parseQuery [] query"

text \<open>
  \<open>net.IP\<close> is a byte slice of length 4 or 16. \<open>To4\<close> and \<open>String\<close> are modelled as
  the library defines them; \<open>String\<close> only for an address with a 4-byte form, which is
  the only case in which the source calls it. The conversion \<open>string(ip)\<close> yields the
  bytes of the address themselves, which in this model is \<open>ip\<close>.
\<close>

type_synonym IP = string

definition To4 :: "IP \<Rightarrow> IP option" where
  "To4 ip =
     (if length ip = 4 then Some ip
      else if length ip = 16 \<and> take 10 ip = replicate 10 (CHR 0x00)
              \<and> ip ! 10 = CHR 0xFF \<and> ip ! 11 = CHR 0xFF
           then Some (drop 12 ip)
      else None)"

fun digit_char :: "nat \<Rightarrow> char" where
  "digit_char n = char_of (of_char CHR ''0'' + n)"

definition decimal :: "nat \<Rightarrow> string" where
  "decimal n =
     (if n < 10 then [digit_char n]
      else if n < 100 then [digit_char (n div 10), digit_char (n mod 10)]
      else [digit_char (n div 100), digit_char (n div 10 mod 10), digit_char (n mod 10)])"

definition IP_String :: "IP \<Rightarrow> string" where
  "IP_String ip =
     (case To4 ip of
        Some p4 \<Rightarrow> strings_Join (map (\<lambda>b. decimal (of_char b)) p4) ''.''
      | None \<Rightarrow> ''?'')"

text \<open>An \<open>http.Cookie\<close>, with the fields the recorder copies.\<close>

record http_Cookie =
  cookie_Name :: string
  cookie_Value :: string
  cookie_Path :: string
  cookie_Domain :: string
  cookie_Expires :: int
  cookie_HttpOnly :: bool
  cookie_Secure :: bool

text \<open>
  \<open>url.URL\<close>, \<open>http.Request\<close> and \<open>http.Response\<close>, with the fields the recorder
  reads. \<open>URL_String\<close> holds what the method \<open>String()\<close> returns, and
  \<open>URL_Query\<close> is the method \<open>Query()\<close>. A body is the bytes its reader delivers before \<open>io.EOF\<close>, or
  \<open>None\<close> for a nil body.
\<close>

record URL =
  URL_Host :: string
  URL_RawQuery :: string
  URL_String :: string

definition URL_Query :: "URL \<Rightarrow> header" where
  "URL_Query u = ParseQuery (URL_RawQuery u)"

record Request =
  req_Method :: string
  req_URL :: URL
  req_Proto :: string
  req_Header :: header
  req_Body :: "string option"
  req_ContentLength :: int
  req_PostForm :: header

record Response =
  resp_Status :: string
  resp_StatusCode :: int
  resp_Proto :: string
  resp_ProtoMajor :: int
  resp_ProtoMinor :: int
  resp_Header :: header
  resp_Body :: "string option"
  resp_ContentLength :: int
  resp_TransferEncoding :: "string list"
  resp_Close :: bool
  resp_Request :: "Request option"

section \<open>The HAR data model and its parsers (grpc-proxy, HAR source file)\<close>

text \<open>
  The structs of the HAR log. A \<open>float64\<close> field only ever receives a whole number of
  milliseconds and is an \<open>int\<close> here; \<open>HarTime\<close> is a \<open>time.Time\<close>, an \<open>int\<close> of
  nanoseconds; a pointer field is an \<open>option\<close>.
\<close>

record HarCreator =
  creator_Name :: string
  creator_Version :: string

record HarCacheState =
  cache_Expires :: string
  cache_LastAccess :: string
  cache_ETag :: string
  cache_HitCount :: int
  cache_Comment :: string

record HarCache =
  AfterRequest :: "HarCacheState option"
  BeforeRequest :: "HarCacheState option"

record HarPageTimings =
  OnLoad :: int
  OnContentLoad :: int

record HarPage =
  page_Id :: string
  page_Title :: string
  page_PageTimings :: HarPageTimings
  page_StartedDateTime :: int

record HarCookie =
  hc_Name :: string
  hc_Value :: string
  hc_Path :: string
  hc_Domain :: string
  hc_Expires :: int
  hc_HttpOnly :: bool
  hc_Secure :: bool

record HarNameValuePair =
  nv_Name :: string
  nv_Value :: string

record HarPostDataParam =
  param_Name :: string
  param_Value :: string
  param_FileName :: string
  param_ContentType :: string

record HarPostData =
  pd_MimeType :: string
  pd_Params :: "HarPostDataParam list"
  pd_Text :: string

record HarContent =
  content_Size :: int
  content_Compression :: int
  content_MimeType :: string
  content_Text :: string
  content_Encoding :: string

record HarTimings =
  Blocked :: int
  Dns :: int
  Ssl :: int
  Connect :: int
  Send :: int
  Wait :: int
  Receive :: int

record HarRequest =
  hreq_Method :: string
  hreq_Url :: string
  hreq_HttpVersion :: string
  hreq_Cookies :: "HarCookie list"
  hreq_Headers :: "HarNameValuePair list"
  hreq_QueryString :: "HarNameValuePair list"
  hreq_PostData :: "HarPostData option"
  hreq_BodySize :: int
  hreq_HeadersSize :: int

record HarResponse =
  hresp_Status :: int
  hresp_StatusText :: string
  hresp_HttpVersion :: string
  hresp_Cookies :: "HarCookie list"
  hresp_Headers :: "HarNameValuePair list"
  hresp_Content :: "HarContent option"
  hresp_RedirectUrl :: string
  hresp_BodySize :: int
  hresp_HeadersSize :: int

record HarEntry =
  Cache :: HarCache
  ServerIPAddress :: string
  PageRef :: string
  StartedDateTime :: int
  Time :: int
  Request :: "HarRequest option"
  Response :: "HarResponse option"
  Timings :: HarTimings
  ServerIpAddress :: string
  Connection :: string

record HarLog =
  Version :: string
  Creator :: HarCreator
  Pages :: "HarPage list"
  Entries :: "HarEntry slice"

record Har =
  Log :: HarLog

text \<open>
  What the recorder takes from the system and from libraries that are not modelled:
  the readings of \<open>time.Now()\<close> in the order they are taken, the functions of package
  \<open>net\<close> (\<open>SplitHostPort\<close> is \<open>None\<close> when it returns an error; \<open>ParseIP\<close> is
  \<open>None\<close> for nil), the cookie parsers behind \<open>Request.Cookies\<close> and
  \<open>Response.Cookies\<close>, \<open>strings.ToLower\<close> (which maps letters of all of Unicode),
  the decoders, \<open>json.Marshal\<close> on the HAR value (the bytes and the error) and
  \<open>ioutil.WriteFile\<close> (the error it returns for a path and contents). A decoder is
  given the raw body and answers, when it fails to open (\<open>gzip.NewReader\<close> returning an
  error), with the part of the body left unread, and otherwise with the decoded bytes and
  the raw bytes that passed through the \<open>TeeReader\<close>.
\<close>

record lib =
  now :: "nat \<Rightarrow> int"
  SplitHostPort :: "string \<Rightarrow> (string \<times> string) option"
  ParseIP :: "string \<Rightarrow> IP option"
  LookupIP :: "string \<Rightarrow> error + IP list"
  readCookies :: "header \<Rightarrow> http_Cookie list"
  readSetCookies :: "header \<Rightarrow> http_Cookie list"
  ToLower :: "string \<Rightarrow> string"
  gzip_NewReader :: "string \<Rightarrow> string + string \<times> string"
  flate_NewReader :: "string \<Rightarrow> string \<times> string"
  json_Marshal :: "Har \<Rightarrow> string \<times> error option"
  WriteFile :: "string \<Rightarrow> string \<Rightarrow> error option"

text \<open>The zero value of \<open>HarEntry\<close>, as \<open>new(HarEntry)\<close> and \<open>make\<close> produce it.\<close>

definition zero_HarEntry :: HarEntry where
  "zero_HarEntry =
     \<lparr>Cache = \<lparr>AfterRequest = None, BeforeRequest = None\<rparr>, ServerIPAddress = [],
      PageRef = [], StartedDateTime = 0, Time = 0, Request = None, Response = None,
      Timings = \<lparr>Blocked = 0, Dns = 0, Ssl = 0, Connect = 0, Send = 0, Wait = 0, Receive = 0\<rparr>,
      ServerIpAddress = [], Connection = []\<rparr>"

definition startingEntrySize :: nat where
  "startingEntrySize = 1000"

definition makeNewEntries :: "HarEntry slice" where
  "makeNewEntries = go_make zero_HarEntry 0 startingEntrySize"

definition newHarLog :: HarLog where
  "newHarLog =
     \<lparr>Version = ''1.2'', Creator = \<lparr>creator_Name = ''GoHarProxy'', creator_Version = ''0.1''\<rparr>,
      Pages = [], Entries = makeNewEntries\<rparr>"

text \<open>
  \<open>HarLog.addEntry(entry ...HarEntry)\<close>. The slice expressions \<open>entries[0:n]\<close> and
  \<open>entries[m:n]\<close> are in range, as \<open>n \<le> cap(entries)\<close> by then. The last statement
  logs \<open>entry[0].Request.Url\<close> and panics, after the log has been updated, when no entry
  was given or the first has no request; the first component of the result is the panic.
\<close>

definition addEntry :: "HarLog \<Rightarrow> HarEntry list \<Rightarrow> string option \<times> HarLog" where
  "addEntry harLog entry =
     (let entries = Entries harLog;
          m = go_len entries;
          n = m + length entry;
          entries1 = (if n > go_cap entries
                      then (let newEntries = go_make zero_HarEntry ((n + 1) * 2) ((n + 1) * 2)
                            in snd (go_copy newEntries entries))
                      else entries);
          entries2 = reslice entries1 0 n;
          entries3 = store entries2 m (take (n - m) entry);
          harLog' = harLog\<lparr>Entries := entries3\<rparr>
      in (case entry of
            [] \<Rightarrow> (Some ''index out of range [0] with length 0'', harLog')
          | e # _ \<Rightarrow>
              (case Request e of
                 None \<Rightarrow> (Some ''invalid memory address or nil pointer dereference'', harLog')
               | Some r \<Rightarrow> (None, harLog'))))"

definition captureContent :: bool where
  "captureContent = True"

definition calcHeaderSize :: "header \<Rightarrow> int" where
  "calcHeaderSize hdr =
     int (foldl (\<lambda>headerSize (headerName, headerValues).
                   foldl (\<lambda>sz v. sz + length v) (headerSize + length headerName + 2) headerValues)
            0 hdr)"

text \<open>
  \<open>parseStringArrMap\<close>: the result is allocated with one element per key and filled
  by index while the map is visited; \<open>index\<close> stays below the length.
\<close>

definition zero_HarNameValuePair :: HarNameValuePair where
  "zero_HarNameValuePair = \<lparr>nv_Name = [], nv_Value = []\<rparr>"

fun fill_pairs :: "header \<Rightarrow> nat \<Rightarrow> HarNameValuePair list \<Rightarrow> HarNameValuePair list" where
  "fill_pairs [] index harQueryString = harQueryString"
| "fill_pairs ((k, v) # rest) index harQueryString =
     (let escapedKey = fst (QueryUnescape k);
          escapedValues = fst (QueryUnescape (strings_Join v '',''));
          harNameValuePair = \<lparr>nv_Name = escapedKey, nv_Value = escapedValues\<rparr>
      in fill_pairs rest (Suc index) (harQueryString[index := harNameValuePair]))"

definition parseStringArrMap :: "header \<Rightarrow> HarNameValuePair list" where
  "parseStringArrMap stringArrMap =
     fill_pairs stringArrMap 0 (replicate (length stringArrMap) zero_HarNameValuePair)"

definition parseCookies :: "http_Cookie list \<Rightarrow> HarCookie list" where
  "parseCookies cookies =
     map (\<lambda>cookie. \<lparr>hc_Name = cookie_Name cookie, hc_Value = cookie_Value cookie,
                     hc_Path = cookie_Path cookie, hc_Domain = cookie_Domain cookie,
                     hc_Expires = cookie_Expires cookie, hc_HttpOnly = cookie_HttpOnly cookie,
                     hc_Secure = cookie_Secure cookie\<rparr>) cookies"

text \<open>
  \<open>parsePostData\<close>: the body is read to its end through a \<open>TeeReader\<close> and replaced by
  a reader of the bytes read, so the request afterwards has the same body. Nothing in
  the function panics in this model, so its \<open>recover\<close> has nothing to do.
\<close>

definition parsePostData :: "Request \<Rightarrow> HarPostData \<times> Request" where
  "parsePostData req =
     (let params = map (\<lambda>(k, v). \<lparr>param_Name = k, param_Value = strings_Join v '','',
                                   param_FileName = [], param_ContentType = []\<rparr>) (req_PostForm req);
          harPostData = \<lparr>pd_MimeType = Header_Get (req_Header req) ''Content-Type'',
                         pd_Params = params, pd_Text = []\<rparr>
      in case req_Body req of
           None \<Rightarrow> (harPostData, req)
         | Some body \<Rightarrow> (harPostData\<lparr>pd_Text := body\<rparr>, req\<lparr>req_Body := Some body\<rparr>))"

definition parseRequest :: "lib \<Rightarrow> Request option \<Rightarrow> HarRequest option \<times> Request option" where
  "parseRequest L r =
     (case r of
        None \<Rightarrow> (None, None)
      | Some req \<Rightarrow>
          (let harRequest =
                 \<lparr>hreq_Method = req_Method req,
                  hreq_Url = URL_String (req_URL req),
                  hreq_HttpVersion = req_Proto req,
                  hreq_Cookies = parseCookies (readCookies L (req_Header req)),
                  hreq_Headers = parseStringArrMap (req_Header req),
                  hreq_QueryString = parseStringArrMap (URL_Query (req_URL req)),
                  hreq_PostData = None,
                  hreq_BodySize = req_ContentLength req,
                  hreq_HeadersSize = calcHeaderSize (req_Header req)\<rparr>
           in if captureContent \<and> (req_Method req = ''POST'' \<or> req_Method req = ''PUT'')
              then (let (pd, req') = parsePostData req
                    in (Some (harRequest\<lparr>hreq_PostData := Some pd\<rparr>), Some req'))
              else (Some harRequest, Some req)))"

text \<open>
  \<open>parseResponse\<close>. When \<open>gzip.NewReader\<close> fails the function panics; the body has
  then been read in part and not been replaced. The deferred function recovers and logs
  \<open>resp.Request.URL\<close>: when \<open>resp.Request\<close> is nil this dereference panics in turn,
  and that panic leaves \<open>parseResponse\<close> (the \<open>Inl\<close> case); otherwise the function
  returns nil.
\<close>

definition parseResponse ::
  "lib \<Rightarrow> Response option \<Rightarrow> string + HarResponse option \<times> Response option" where
  "parseResponse L r =
     (case r of
        None \<Rightarrow> Inr (None, None)
      | Some resp \<Rightarrow>
          (let hdr = resp_Header resp;
               harResponse = (\<lambda>decodeBody resp'.
                 (Some \<lparr>hresp_Status = resp_StatusCode resp',
                        hresp_StatusText = resp_Status resp',
                        hresp_HttpVersion = resp_Proto resp',
                        hresp_Cookies = parseCookies (readSetCookies L (resp_Header resp')),
                        hresp_Headers = parseStringArrMap hdr,
                        hresp_Content =
                          (if captureContent
                           then Some \<lparr>content_Size = int (length decodeBody),
                                      content_Compression = 0,
                                      content_MimeType = Header_Get (resp_Header resp') ''Content-Type'',
                                      content_Text = decodeBody, content_Encoding = []\<rparr>
                           else None),
                        hresp_RedirectUrl = [],
                        hresp_BodySize = resp_ContentLength resp',
                        hresp_HeadersSize = calcHeaderSize hdr\<rparr>,
                  Some resp'))
           in case resp_Body resp of
                None \<Rightarrow> Inr (harResponse [] resp)
              | Some raw \<Rightarrow>
                  (let enc = ToLower L (Header_Get hdr ''Content-Encoding'')
                   in if enc = ''gzip''
                      then (case gzip_NewReader L raw of
                              Inl unread \<Rightarrow>
                                (case resp_Request resp of
                                   None \<Rightarrow> Inl ''invalid memory address or nil pointer dereference''
                                 | Some request \<Rightarrow>
                                     Inr (None, Some (resp\<lparr>resp_Body := Some unread\<rparr>)))
                            | Inr (decoded, teed) \<Rightarrow>
                                Inr (harResponse decoded (resp\<lparr>resp_Body := Some teed\<rparr>)))
                      else if enc = ''deflate''
                      then (let (decoded, teed) = flate_NewReader L raw
                            in Inr (harResponse decoded (resp\<lparr>resp_Body := Some teed\<rparr>)))
                      else Inr (harResponse raw (resp\<lparr>resp_Body := Some raw\<rparr>)))))"

section \<open>grpc-proxy/http\_transport.go\<close>

text \<open>
  \<open>HTTPTransport\<close>: the embedded \<open>*http.Transport\<close> is modelled by what its
  \<open>RoundTrip\<close> answers to a request, an error or a response.
\<close>

record HTTPTransport =
  Transport :: "Request \<Rightarrow> error + Response"
  Har :: Har
  harFile :: string

definition NewHTTPTransport :: "(Request \<Rightarrow> error + Response) \<Rightarrow> string \<Rightarrow> HTTPTransport" where
  "NewHTTPTransport transport file =
     \<lparr>Transport = transport, Har = \<lparr>Log = newHarLog\<rparr>, harFile = file\<rparr>"

definition StatusBadGateway :: int where
  "StatusBadGateway = 502"

definition create502Response :: "Request \<Rightarrow> error \<Rightarrow> Response" where
  "create502Response req err =
     \<lparr>resp_Status = [], resp_StatusCode = StatusBadGateway, resp_Proto = [],
      resp_ProtoMajor = 1, resp_ProtoMinor = 1,
      resp_Header = [(''X-Request-Error'', [err])],
      resp_Body = Some [], resp_ContentLength = 0, resp_TransferEncoding = [],
      resp_Close = True, resp_Request = Some req\<rparr>"

text \<open>
  \<open>fillIpAddress\<close>. The loop over the resolved addresses stops at the first one with
  a 4-byte form.
\<close>

fun first_IPv4 :: "IP list \<Rightarrow> HarEntry \<Rightarrow> HarEntry" where
  "first_IPv4 [] harEntry = harEntry"
| "first_IPv4 (ip # ipaddr) harEntry =
     (if To4 ip \<noteq> None then harEntry\<lparr>ServerIpAddress := IP_String ip\<rparr>
      else first_IPv4 ipaddr harEntry)"

definition fillIpAddress :: "lib \<Rightarrow> Request \<Rightarrow> HarEntry \<Rightarrow> HarEntry" where
  "fillIpAddress L req harEntry =
     (let host = (case SplitHostPort L (URL_Host (req_URL req)) of
                    None \<Rightarrow> URL_Host (req_URL req)
                  | Some (h, port) \<Rightarrow> h);
          harEntry1 = (case ParseIP L host of
                         Some ip \<Rightarrow> harEntry\<lparr>ServerIpAddress := ip\<rparr>
                       | None \<Rightarrow> harEntry)
      in case LookupIP L host of
           Inr ipaddr \<Rightarrow> first_IPv4 ipaddr harEntry1
         | Inl err \<Rightarrow> harEntry1)"

text \<open>
  Go's integer division truncates towards zero; \<open>millis d\<close> is
  \<open>float64(d / time.Millisecond)\<close> for a duration of \<open>d\<close> nanoseconds.
\<close>

definition millis :: "int \<Rightarrow> int" where
  "millis d = sgn d * (\<bar>d\<bar> div 1000000)"

definition contentSecurityPolicy :: string where
  "contentSecurityPolicy = ''default-src * blob: data: 'unsafe-inline' 'unsafe-eval';''"

text \<open>
  \<open>HTTPTransport.RoundTrip\<close>. The result holds the two values returned, the
  transport afterwards (its HAR log is updated in place), and the file that was written,
  if it was, with its contents: the errors of \<open>json.Marshal\<close> and
  \<open>ioutil.WriteFile\<close> are dropped by the source, so a write that fails goes unnoticed.
  A panic that leaves \<open>parseResponse\<close> or \<open>addEntry\<close> is not recovered and is the
  \<open>Inl\<close> case.
\<close>

record roundtrip =
  rt_resp :: "Response option"
  rt_err :: "error option"
  rt_m :: HTTPTransport
  rt_written :: "(string \<times> string) option"

definition replace_csp :: "header \<Rightarrow> header" where
  "replace_csp h0 =
     (let h1 = Header_Del h0 ''Webkit-CSP'';
          h2 = Header_Del h1 ''Content-Security-Policy'';
          h3 = Header_Del h2 ''X-Webkit-CSP'';
          h4 = Header_Del h3 ''X-Content-Security-Policy'';
          h5 = Header_Add h4 ''Webkit-CSP'' contentSecurityPolicy;
          h6 = Header_Add h5 ''Content-Security-Policy'' contentSecurityPolicy;
          h7 = Header_Add h6 ''X-Webkit-CSP'' contentSecurityPolicy
      in Header_Add h7 ''X-Content-Security-Policy'' contentSecurityPolicy)"

definition RoundTrip :: "lib \<Rightarrow> HTTPTransport \<Rightarrow> Request \<Rightarrow> string + roundtrip" where
  "RoundTrip L m req0 =
     (let tranpoort = Transport m;
          req1 = req0\<lparr>req_Header := Header_Set (req_Header req0) ''Accept-Encoding'' ''gzip, deflate''\<rparr>;
          st = now L 0;
          (hreq, r2) = parseRequest L (Some req1);
          req = (case r2 of Some q \<Rightarrow> q | None \<Rightarrow> req1);
          harEntry = zero_HarEntry\<lparr>Request := hreq, StartedDateTime := st\<rparr>
      in case tranpoort req of
           Inl err \<Rightarrow>
             Inr \<lparr>rt_resp = Some (create502Response req err), rt_err = None, rt_m = m,
                  rt_written = None\<rparr>
         | Inr resp0 \<Rightarrow>
             (let harEntry1 = harEntry\<lparr>Timings := (Timings harEntry)\<lparr>Send := millis (now L 1 - st)\<rparr>\<rparr>;
                  rst = now L 2
              in case parseResponse L (Some resp0) of
                   Inl msg \<Rightarrow> Inl msg
                 | Inr (hresp, r3) \<Rightarrow>
                     (let resp = (case r3 of Some p \<Rightarrow> p | None \<Rightarrow> resp0);
                          harEntry2 = harEntry1\<lparr>Response := hresp\<rparr>;
                          harEntry3 = harEntry2\<lparr>Timings := (Timings harEntry2)
                                                     \<lparr>Receive := millis (now L 3 - rst)\<rparr>\<rparr>;
                          harEntry4 = harEntry3\<lparr>Time := millis (now L 4 - StartedDateTime harEntry3)\<rparr>;
                          resp' = resp\<lparr>resp_Header := replace_csp (resp_Header resp)\<rparr>
                      in if harFile m \<noteq> []
                         then (let harEntry5 = fillIpAddress L req harEntry4;
                                   (panic, harLog') = addEntry (Log (Har m)) [harEntry5];
                                   m' = m\<lparr>Har := (Har m)\<lparr>Log := harLog'\<rparr>\<rparr>
                               in case panic of
                                    Some msg \<Rightarrow> Inl msg
                                  | None \<Rightarrow>
                                      (let str = fst (json_Marshal L (Har m'));
                                           werr = WriteFile L (harFile m) str
                                       in Inr \<lparr>rt_resp = Some resp', rt_err = None, rt_m = m',
                                               rt_written = (if werr = None then Some (harFile m, str)
                                                             else None)\<rparr>))
                         else Inr \<lparr>rt_resp = Some resp', rt_err = None, rt_m = m,
                                   rt_written = None\<rparr>)))"

section \<open>Notions used to state the properties\<close>

text \<open>The channels of \<open>New\<close> and the connections given to forwarding goroutines.\<close>

definition chans :: "world \<Rightarrow> conn list \<times> conn list \<times> conn list" where
  "chans w = (tlsConns w, nonTLSConns w, forwarded w)"

definition world_of :: "peek_state \<Rightarrow> world" where
  "world_of st = snd (snd (snd (snd st)))"

text \<open>
  What one run of the middleware chain may do to the two connection channels: nothing,
  or take the connection and send one connection on exactly one of them.
\<close>

definition one_send :: "world \<Rightarrow> chain_result \<Rightarrow> world \<Rightarrow> bool" where
  "one_send w r w' \<longleftrightarrow>
      (tlsConns w' = tlsConns w \<and> nonTLSConns w' = nonTLSConns w)
    \<or> (r = Taken \<and> (\<exists>c'. tlsConns w' = tlsConns w @ [c']) \<and> nonTLSConns w' = nonTLSConns w)
    \<or> (r = Taken \<and> tlsConns w' = tlsConns w \<and> (\<exists>c'. nonTLSConns w' = nonTLSConns w @ [c']))"

text \<open>
  The request as \<open>RoundTrip\<close> hands it to the embedded transport: the request it was
  given, after \<open>req.Header.Set("Accept-Encoding", "gzip, deflate")\<close>.
\<close>

definition sent_request :: "Request \<Rightarrow> Request" where
  "sent_request req0 =
     req0\<lparr>req_Header := Header_Set (req_Header req0) ''Accept-Encoding'' ''gzip, deflate''\<rparr>"

text \<open>
  The entry that \<open>RoundTrip\<close> builds for a request, given the record that
  \<open>parseResponse\<close> returned for the response of the transport.
\<close>

definition recorded_entry :: "lib \<Rightarrow> Request \<Rightarrow> HarResponse option \<Rightarrow> HarEntry" where
  "recorded_entry L req0 hresp =
     fillIpAddress L (sent_request req0)
       (zero_HarEntry\<lparr>Request := fst (parseRequest L (Some (sent_request req0))),
                       StartedDateTime := now L 0,
                       Response := hresp,
                       Timings := (Timings zero_HarEntry)\<lparr>Send := millis (now L 1 - now L 0),
                                    Receive := millis (now L 3 - now L 2)\<rparr>,
                       Time := millis (now L 4 - now L 0)\<rparr>)"

text \<open>The entries of the HAR log of a transport.\<close>

definition entries :: "HTTPTransport \<Rightarrow> HarEntry list" where
  "entries m = elems (Entries (Log (Har m)))"

text \<open>The pair that \<open>parseStringArrMap\<close> stores for a name and its values.\<close>

definition unescaped_pair :: "string \<times> string list \<Rightarrow> HarNameValuePair" where
  "unescaped_pair kv =
     \<lparr>nv_Name = fst (QueryUnescape (fst kv)),
      nv_Value = fst (QueryUnescape (strings_Join (snd kv) '',''))\<rparr>"

section \<open>Example inputs\<close>

text \<open>A heap in which nothing has been closed, and whose listeners close without error.\<close>

definition heap0 :: heap where
  "heap0 = \<lparr>onces = (\<lambda>_. False), next_once = 0,
            listeners = (\<lambda>_. \<lparr>ln_close_calls = 0, ln_close_err = (\<lambda>_. None)\<rparr>)\<rparr>"

text \<open>
  A connection on which the 14 bytes of \<open>GET / HTTP/1.1\<close> arrive in one segment, and the
  state of the channels before any connection has been accepted.
\<close>

definition conn_get :: rawConn where
  "conn_get = \<lparr>conn_id = 1, incoming = [''GET / HTTP/1.1''], original_destination = None\<rparr>"

definition world0 :: world where
  "world0 = \<lparr>tlsConns = [], nonTLSConns = [], forwarded = [], clock = (\<lambda>n. int n), ticks = 0\<rparr>"

text \<open>\<open>Peek\<close> into a buffer of 4 bytes on the fresh connection, then into one of 8 bytes.\<close>

definition peek4 :: "(nat \<times> error option) \<times> byte slice \<times> peekConn" where
  "peek4 = Peek (NewPeekConn conn_get) (go_make zero_byte 4 4)"

definition peek8 :: "(nat \<times> error option) \<times> byte slice \<times> peekConn" where
  "peek8 = Peek (conn_after peek4) (go_make zero_byte 8 8)"

text \<open>
  The answers of the system for the examples: a clock that advances one millisecond per
  reading, and the results of package \<open>net\<close> for the hosts used. For the literal
  \<open>::1\<close> they are those of Go: \<open>ParseIP\<close> yields the 16 bytes of the address and
  \<open>LookupIP\<close> answers a literal with that address itself. \<open>ascii_ToLower\<close> is
  \<open>strings.ToLower\<close> on ASCII text, which all texts of the examples are. No decoder
  opens, the HAR value is marshalled to \<open>{}\<close>, and every file can be written.
\<close>

definition ascii_ToLower :: "string \<Rightarrow> string" where
  "ascii_ToLower s = map (\<lambda>c. if between CHR ''A'' CHR ''Z'' c then shift_char c 32 else c) s"

definition loopback6 :: IP where
  "loopback6 = replicate 15 (CHR 0x00) @ [CHR 0x01]"

definition lib0 :: lib where
  "lib0 =
     \<lparr>now = (\<lambda>n. 1000000 * int n),
      SplitHostPort = (\<lambda>hostport.
         if hostport = ''[::1]:8080'' then Some (''::1'', ''8080'') else None),
      ParseIP = (\<lambda>host. if host = ''::1'' then Some loopback6 else None),
      LookupIP = (\<lambda>host.
         if host = ''::1'' then Inr [loopback6]
         else if host = ''upstream.test''
           then Inr [replicate 10 (CHR 0x00)
                     @ [CHR 0xFF, CHR 0xFF, CHR 0xC0, CHR 0x00, CHR 0x02, CHR 0x07]]
         else Inl ''no such host''),
      readCookies = (\<lambda>h. []),
      readSetCookies = (\<lambda>h. []),
      ToLower = ascii_ToLower,
      gzip_NewReader = (\<lambda>raw. Inl raw),
      flate_NewReader = (\<lambda>raw. (raw, raw)),
      json_Marshal = (\<lambda>har. (''{}'', None)),
      WriteFile = (\<lambda>name contents. None)\<rparr>"

definition req_get :: Request where
  "req_get =
     \<lparr>req_Method = ''GET'',
      req_URL = \<lparr>URL_Host = ''upstream.test'', URL_RawQuery = ''q=a%2Bb'',
                 URL_String = ''http://upstream.test/hello?q=a%2Bb''\<rparr>,
      req_Proto = ''HTTP/1.1'',
      req_Header = [(''Accept-Encoding'', [''br'']), (''User-Agent'', [''curl/8.0''])],
      req_Body = Some [], req_ContentLength = 0, req_PostForm = []\<rparr>"

definition req_v6 :: Request where
  "req_v6 = req_get\<lparr>req_URL := \<lparr>URL_Host = ''[::1]:8080'', URL_RawQuery = [],
                                   URL_String = ''http://[::1]:8080/''\<rparr>\<rparr>"

definition resp_ok :: Response where
  "resp_ok =
     \<lparr>resp_Status = ''200 OK'', resp_StatusCode = 200, resp_Proto = ''HTTP/1.1'',
      resp_ProtoMajor = 1, resp_ProtoMinor = 1,
      resp_Header = [(''Content-Security-Policy'', [''default-src none'']),
                     (''Content-Type'', [''text/plain''])],
      resp_Body = Some ''hi'', resp_ContentLength = 2, resp_TransferEncoding = [],
      resp_Close = False, resp_Request = Some (sent_request req_get)\<rparr>"

text \<open>
  A response that announces \<open>gzip\<close> and carries no request; its body does not open
  with the decoder of the examples.
\<close>

definition resp_torn :: Response where
  "resp_torn = resp_ok\<lparr>resp_Header := [(''Content-Encoding'', [''gzip''])], resp_Request := None\<rparr>"

definition transport_ok :: "Request \<Rightarrow> error + Response" where
  "transport_ok req = Inr resp_ok"

definition transport_down :: "Request \<Rightarrow> error + Response" where
  "transport_down req = Inl ''dial tcp 192.0.2.7:80: connect: connection refused''"

text \<open>
  A transport that answers only a request whose \<open>Accept-Encoding\<close> is exactly
  \<open>gzip, deflate\<close> and that has kept its \<open>User-Agent\<close>.
\<close>

definition transport_picky :: "Request \<Rightarrow> error + Response" where
  "transport_picky req =
     (if map_of (req_Header req) ''Accept-Encoding'' = Some [''gzip, deflate'']
         \<and> map_of (req_Header req) ''User-Agent'' = Some [''curl/8.0'']
      then Inr resp_ok else Inl ''unexpected request'')"

definition m_picky :: HTTPTransport where
  "m_picky = NewHTTPTransport transport_picky ''proxy.har''"

definition m_down :: HTTPTransport where
  "m_down = NewHTTPTransport transport_down ''proxy.har''"

definition m_ok :: HTTPTransport where
  "m_ok = NewHTTPTransport transport_ok ''proxy.har''"


section \<open>Properties of the derived listeners\<close>

lemma tlsMuxListener_Close_done:
  "onces h (close c) \<Longrightarrow> tlsMuxListener_Close c h = (None, h)"
  by (simp add: tlsMuxListener_Close_def Once_Do_def)

lemma tlsMuxListener_Close_first:
  "\<not> onces h (close c) \<Longrightarrow>
   tlsMuxListener_Close c h =
     (fst (Listener_Close (Listener c) h),
      (snd (Listener_Close (Listener c) h))\<lparr>onces := (onces h)(close c := True)\<rparr>)"
  by (simp add: tlsMuxListener_Close_def Once_Do_def Listener_Close_def Let_def)

lemma closes_done:
  "\<forall>d \<in> set ds. d = NonTLS c \<or> d = TLSWrapped c \<Longrightarrow> onces h (close c) \<Longrightarrow>
   closes ds h = (replicate (length ds) None, h)"
  by (induction ds) (auto simp: tlsMuxListener_Close_done)

lemma closes_first:
  assumes "\<forall>d \<in> set (d0 # ds). d = NonTLS c \<or> d = TLSWrapped c"
    and "\<not> onces h (close c)"
  shows "underlying_closes (Listener c) (snd (closes (d0 # ds) h))
           = Suc (underlying_closes (Listener c) h)"
proof -
  let ?h1 = "(snd (Listener_Close (Listener c) h))\<lparr>onces := (onces h)(close c := True)\<rparr>"
  have first: "derived_Close d0 h = (fst (Listener_Close (Listener c) h), ?h1)"
    using assms by (auto simp: tlsMuxListener_Close_first)
  have done1: "onces ?h1 (close c)" by simp
  have rest: "closes ds ?h1 = (replicate (length ds) None, ?h1)"
    using assms(1) done1 by (intro closes_done) auto
  have "snd (closes (d0 # ds) h) = ?h1"
    by (simp add: first rest)
  then show ?thesis
    by (simp add: underlying_closes_def Listener_Close_def Let_def)
qed

text \<open>
  C8. Closing the derived listeners of \<open>New\<close> any positive number of times, in any
  order and on either of the two, invokes the underlying listener's \<open>Close\<close> exactly
  once: after the calls the underlying listener has seen one more \<open>Close\<close> than before
  \<open>New\<close>.
\<close>

theorem close_exactly_once:
  assumes "New_listeners l h0 = (nonTLSListener, tlsListener, h1)"
    and "ds \<noteq> []"
    and "set ds \<subseteq> {nonTLSListener, tlsListener}"
  shows "underlying_closes l (snd (closes ds h1)) = Suc (underlying_closes l h0)"
proof -
  define c where "c = \<lparr>Listener = l, close = next_once h0\<rparr>"
  have n: "nonTLSListener = NonTLS c" and t: "tlsListener = TLSWrapped c"
    and h1: "h1 = h0\<lparr>onces := (onces h0)(next_once h0 := False), next_once := Suc (next_once h0)\<rparr>"
    using assms(1) by (auto simp: New_listeners_def Let_def c_def)
  obtain d0 ds' where ds: "ds = d0 # ds'"
    using assms(2) by (cases ds) auto
  have all: "\<forall>d \<in> set (d0 # ds'). d = NonTLS c \<or> d = TLSWrapped c"
    using assms(3) n t ds by auto
  have fresh: "\<not> onces h1 (close c)"
    by (simp add: h1 c_def)
  have "underlying_closes (Listener c) (snd (closes (d0 # ds') h1))
          = Suc (underlying_closes (Listener c) h1)"
    using all fresh by (rule closes_first)
  moreover have "Listener c = l" by (simp add: c_def)
  moreover have "underlying_closes l h1 = underlying_closes l h0"
    by (simp add: h1 underlying_closes_def)
  ultimately show ?thesis by (simp add: ds)
qed

theorem close_exactly_once_witness:
  "underlying_closes 7
     (snd (closes [fst (snd (New_listeners 7 heap0)), fst (New_listeners 7 heap0),
                   fst (snd (New_listeners 7 heap0))]
             (snd (snd (New_listeners 7 heap0))))) = 1"
proof -
  obtain n t h1 where N: "New_listeners 7 heap0 = (n, t, h1)"
    by (cases "New_listeners 7 heap0") auto
  have e: "underlying_closes 7 (snd (closes [t, n, t] h1)) = Suc (underlying_closes 7 heap0)"
    using close_exactly_once [OF N, of "[t, n, t]"] by simp
  have z: "underlying_closes 7 heap0 = 0"
    by (simp add: underlying_closes_def heap0_def)
  show ?thesis
    by (simp only: N fst_conv snd_conv e z One_nat_def)
qed

section \<open>Properties of the peeking connection\<close>

text \<open>
  \<open>Peek\<close> never makes \<open>p.peeked\<close> longer: what it reads is stored beyond the length
  of the slice. From a connection that has nothing peeked it therefore returns 0, and
  leaves a connection that has nothing peeked.
\<close>

lemma Peek_never_extends:
  "go_len (peeked p) = 0 \<Longrightarrow>
   fst (fst (Peek p b)) = 0 \<and> go_len (peeked (conn_after (Peek p b))) = 0"
  by (auto simp: Peek_def conn_after_def Let_def go_make_def go_copy_def store_def
      split: prod.splits slice.splits)

text \<open>
  C1 (the code departs from the claim). On a connection that delivers
  \<open>GET / HTTP/1.1\<close>, a \<open>Peek\<close> of 4 bytes followed by a \<open>Peek\<close> of 8 bytes both
  return 0 bytes, so they show no prefix of the stream at all, and the \<open>Read\<close> that
  follows delivers \<open>.1\<close>: the 12 bytes that the two peeks took from the underlying
  connection are lost. Without the peeks the same \<open>Read\<close> delivers all 14 bytes.
\<close>

theorem peek_then_read_loses_bytes:
  "fst (fst peek4) = 0 \<and> delivered peek4 = [] \<and> fst (fst peek8) = 0 \<and> delivered peek8 = []
   \<and> delivered (peekConn_Read (conn_after peek8) (go_make zero_byte 14 14)) = ''.1''
   \<and> delivered (peekConn_Read (NewPeekConn conn_get) (go_make zero_byte 14 14))
        = ''GET / HTTP/1.1''"
  by code_simp

section \<open>Properties of the classifiers\<close>

lemma chans_time_Now: "chans (snd (time_Now w)) = chans w"
  by (simp add: chans_def time_Now_def)

lemma peek_loop_chans:
  assumes "peek_loop timeout deadline sz st = Some st'"
  shows "chans (world_of st') = chans (world_of st)"
proof (rule peek_loop.raw_induct [rotated, OF assms])
  fix f timeout deadline sz st st'
  assume IH: "\<And>timeout deadline sz st st'. f timeout deadline sz st = Some st' \<Longrightarrow>
                chans (world_of st') = chans (world_of st)"
    and step: "(case st of (n, err, p, data, w) \<Rightarrow>
        if n < sz \<and> err = None
        then (let r = Peek p (reslice data 0 sz);
                  n' = fst (fst r); err' = snd (fst r); p' = snd (snd r);
                  data' = Slice (backing (fst (snd r))) (go_len data)
              in if timeout = 0 then Some (n', err', p', data', w)
                 else (let t = time_Now w
                       in if fst t > deadline then Some (n', err', p', data', snd t)
                          else f timeout deadline sz (n', err', p', data', snd t)))
        else Some st) = Some st'"
  obtain n err p data w where st: "st = (n, err, p, data, w)"
    by (cases st) auto
  show "chans (world_of st') = chans (world_of st)"
  proof (cases "n < sz \<and> err = None")
    case False
    with step st show ?thesis by auto
  next
    case True
    show ?thesis
    proof (cases "timeout = 0 \<or> fst (time_Now w) > deadline")
      case True
      with step st \<open>n < sz \<and> err = None\<close> show ?thesis
        by (auto simp: Let_def world_of_def chans_time_Now split: if_splits)
    next
      case False
      with step st \<open>n < sz \<and> err = None\<close> obtain st1 where
        "f timeout deadline sz st1 = Some st'" and "world_of st1 = snd (time_Now w)"
        by (auto simp: Let_def world_of_def)
      with IH [of timeout deadline sz st1 st'] st show ?thesis
        by (simp add: world_of_def chans_time_Now)
    qed
  qed
qed

lemma peek_loop_zero:
  "peek_loop 0 deadline sz st \<noteq> None"
  by (subst peek_loop.simps) (simp add: Let_def split: prod.splits)

lemma peek_loop_zero_step:
  "peek_loop 0 deadline sz (0, None, p, data, w) =
     (if 0 < sz
      then Some (fst (fst (Peek p (reslice data 0 sz))), snd (fst (Peek p (reslice data 0 sz))),
                 snd (snd (Peek p (reslice data 0 sz))),
                 Slice (backing (fst (snd (Peek p (reslice data 0 sz))))) (go_len data), w)
      else Some (0, None, p, data, w))"
  by (subst peek_loop.simps) (simp add: Let_def)

text \<open>What a pattern middleware does to the channels is what its \<open>middle\<close> does.\<close>

lemma sizes_loop_cases:
  "sizes_loop pattern sizes timeout middle p t data w = Some (r, w') \<Longrightarrow>
     (chans w' = chans w \<and> (\<exists>c. r = Return (Some c) None))
   \<or> (\<exists>c w1. chans w1 = chans w \<and> middle c w1 = Some (r, w'))"
proof (induction sizes arbitrary: p data w)
  case Nil
  then show ?case by auto
next
  case (Cons sz rest)
  let ?data1 = "if go_cap data < sz then go_make zero_byte sz sz else data"
  from Cons.prems obtain n err p' data2 w1 where
    pl: "peek_loop timeout (t + timeout) sz (0, None, p, ?data1, w) = Some (n, err, p', data2, w1)"
    by (auto simp: Let_def split: option.splits)
  have ch: "chans w1 = chans w"
    using peek_loop_chans [OF pl] by (simp add: world_of_def)
  show ?case
  proof (cases "n < sz")
    case True
    with Cons.prems pl ch show ?thesis by (auto simp: Let_def)
  next
    case False
    show ?thesis
    proof (cases "Regexp_Match pattern (elems data2)")
      case True
      with Cons.prems pl False ch show ?thesis by (auto simp: Let_def)
    next
      case nomatch: False
      with Cons.prems pl False
      have "sizes_loop pattern rest timeout middle p' t data2 w1 = Some (r, w')"
        by (auto simp: Let_def)
      from Cons.IH [OF this] ch show ?thesis by auto
    qed
  qed
qed

lemma pattern_middle_cases:
  "pattern_middle pattern sizes timeout middle c w = Some (r, w') \<Longrightarrow>
     (chans w' = chans w \<and> ((\<exists>c. r = Return (Some c) None) \<or> (\<exists>m. r = Panicked m)))
   \<or> (\<exists>c w1. chans w1 = chans w \<and> middle c w1 = Some (r, w'))"
proof (cases c)
  case (Raw x)
  assume "pattern_middle pattern sizes timeout middle c w = Some (r, w')"
  with Raw show ?thesis by (auto simp: pattern_middle_def)
next
  case (PeekC p)
  assume a: "pattern_middle pattern sizes timeout middle c w = Some (r, w')"
  with PeekC have "sizes_loop pattern sizes timeout middle p (fst (time_Now w)) (go_make zero_byte 8 8) (snd (time_Now w)) = Some (r, w')"
    by (auto simp: pattern_middle_def split: prod.splits)
  from sizes_loop_cases [OF this] show ?thesis
    by (auto simp: chans_time_Now)
next
  case (PatternC p t)
  assume a: "pattern_middle pattern sizes timeout middle c w = Some (r, w')"
  with PatternC have "sizes_loop pattern sizes timeout middle p t (go_make zero_byte 8 8) w = Some (r, w')"
    by (auto simp: pattern_middle_def split: prod.splits)
  from sizes_loop_cases [OF this] show ?thesis
    by auto
qed

lemma sizes_loop_zero_returns:
  "(\<And>c w. middle c w \<noteq> None) \<Longrightarrow> sizes_loop pattern sizes 0 middle p t data w \<noteq> None"
proof (induction sizes arbitrary: p data w)
  case Nil
  then show ?case by simp
next
  case (Cons sz rest)
  let ?data1 = "if go_cap data < sz then go_make zero_byte sz sz else data"
  obtain n err p' data2 w1 where
    pl: "peek_loop 0 (t + 0) sz (0, None, p, ?data1, w) = Some (n, err, p', data2, w1)"
    using peek_loop_zero [of "t + 0" sz "(0, None, p, ?data1, w)"] by (cases "peek_loop 0 (t + 0) sz (0, None, p, ?data1, w)") auto
  have "sizes_loop pattern rest 0 middle p' t data2 w1 \<noteq> None"
    by (rule Cons.IH) (rule Cons.prems)
  moreover have "middle (PatternC p' t) w1 \<noteq> None"
    by (rule Cons.prems)
  ultimately show ?case
    using pl by (simp add: Let_def)
qed

lemma middles_hlisten:
  "middles hlisten =
     [pattern_middle tls_peekPattern [3] 0 send_tls,
      pattern_middle http_peekPattern [4, 5, 6, 7, 8] 0 send_nonTLS,
      fallback]"
  by (simp add: hlisten_def NewListener_def New_opts_def WithPeekConn_def WithTLSMiddleware_def
      WithHTTPMiddleware_def WithPatternMiddleware_def WithMiddleware_def)

lemma enable_hlisten: "features_peekConn_enable hlisten"
  by (simp add: hlisten_def NewListener_def New_opts_def WithPeekConn_def WithTLSMiddleware_def
      WithHTTPMiddleware_def WithPatternMiddleware_def WithMiddleware_def)

lemma pattern_middle_zero_returns:
  "(\<And>c w. middle c w \<noteq> None) \<Longrightarrow> pattern_middle pattern sizes 0 middle c w \<noteq> None"
proof -
  assume m: "\<And>c w. middle c w \<noteq> None"
  have "sizes_loop pattern sizes 0 middle p t data w' \<noteq> None" for p t data w'
    using m by (rule sizes_loop_zero_returns)
  then show ?thesis
    by (cases c) (simp_all add: pattern_middle_def split: prod.splits)
qed

text \<open>
  With \<open>Peek\<close> as it is, a pattern middleware with timeout 0 and a first peek size
  above 0 never reaches its pattern: it hands every connection on.
\<close>

lemma pattern_middle_never_takes:
  assumes "go_len (peeked p) = 0" and "0 < sz"
  shows "\<exists>p' t w'. pattern_middle pattern (sz # rest) 0 middle (PeekC p) w
                     = Some (Return (Some (PatternC p' t)) None, w')
                   \<and> chans w' = chans w"
proof -
  have "fst (fst (Peek p b)) = 0" for b
    using assms(1) Peek_never_extends by blast
  then show ?thesis
    using assms(2)
    by (simp add: pattern_middle_def peek_loop_zero_step Let_def time_Now_def chans_def)
qed

lemma tls_classifier_effect:
  obtains r w' where "pattern_middle tls_peekPattern [3] 0 send_tls c w = Some (r, w')"
    and "(chans w' = chans w \<and> ((\<exists>c'. r = Return (Some c') None) \<or> (\<exists>m. r = Panicked m)))
       \<or> (r = Return None None \<and> (\<exists>c'. tlsConns w' = tlsConns w @ [c'])
            \<and> nonTLSConns w' = nonTLSConns w)"
proof -
  have "pattern_middle tls_peekPattern [3] 0 send_tls c w \<noteq> None"
    by (rule pattern_middle_zero_returns) (simp add: send_tls_def)
  then obtain r w' where run: "pattern_middle tls_peekPattern [3] 0 send_tls c w = Some (r, w')"
    by auto
  from pattern_middle_cases [OF run]
  have "(chans w' = chans w \<and> ((\<exists>c'. r = Return (Some c') None) \<or> (\<exists>m. r = Panicked m)))
       \<or> (r = Return None None \<and> (\<exists>c'. tlsConns w' = tlsConns w @ [c'])
            \<and> nonTLSConns w' = nonTLSConns w)"
    by (auto simp: send_tls_def chans_def)
  with run show thesis by (rule that)
qed

lemma http_classifier_effect:
  obtains r w' where
    "pattern_middle http_peekPattern [4, 5, 6, 7, 8] 0 send_nonTLS c w = Some (r, w')"
    and "(chans w' = chans w \<and> ((\<exists>c'. r = Return (Some c') None) \<or> (\<exists>m. r = Panicked m)))
       \<or> (r = Return None None \<and> (\<exists>c'. nonTLSConns w' = nonTLSConns w @ [c'])
            \<and> tlsConns w' = tlsConns w)"
proof -
  have "pattern_middle http_peekPattern [4, 5, 6, 7, 8] 0 send_nonTLS c w \<noteq> None"
    by (rule pattern_middle_zero_returns) (simp add: send_nonTLS_def)
  then obtain r w' where
    run: "pattern_middle http_peekPattern [4, 5, 6, 7, 8] 0 send_nonTLS c w = Some (r, w')"
    by auto
  from pattern_middle_cases [OF run]
  have "(chans w' = chans w \<and> ((\<exists>c'. r = Return (Some c') None) \<or> (\<exists>m. r = Panicked m)))
       \<or> (r = Return None None \<and> (\<exists>c'. nonTLSConns w' = nonTLSConns w @ [c'])
            \<and> tlsConns w' = tlsConns w)"
    by (auto simp: send_nonTLS_def chans_def)
  with run show thesis by (rule that)
qed

lemma fallback_effect:
  "\<exists>r w'. run_middles [fallback] c w = Some (r, w')
     \<and> tlsConns w' = tlsConns w \<and> nonTLSConns w' = nonTLSConns w"
  by (simp add: fallback_def)

lemma http_then_fallback:
  "\<exists>r w'. run_middles [pattern_middle http_peekPattern [4, 5, 6, 7, 8] 0 send_nonTLS, fallback] c w
            = Some (r, w') \<and> one_send w r w'"
proof -
  obtain r1 w1 where
    run: "pattern_middle http_peekPattern [4, 5, 6, 7, 8] 0 send_nonTLS c w = Some (r1, w1)"
    and eff: "(chans w1 = chans w \<and> ((\<exists>c'. r1 = Return (Some c') None) \<or> (\<exists>m. r1 = Panicked m)))
       \<or> (r1 = Return None None \<and> (\<exists>c'. nonTLSConns w1 = nonTLSConns w @ [c'])
            \<and> tlsConns w1 = tlsConns w)"
    by (rule http_classifier_effect)
  from eff consider
      (pass) c1 where "chans w1 = chans w" "r1 = Return (Some c1) None"
    | (panic) m where "chans w1 = chans w" "r1 = Panicked m"
    | (taken) "r1 = Return None None" "\<exists>c'. nonTLSConns w1 = nonTLSConns w @ [c']"
        "tlsConns w1 = tlsConns w"
    by blast
  then show ?thesis
  proof cases
    case pass
    obtain r w' where fb: "run_middles [fallback] c1 w1 = Some (r, w')"
      and k: "tlsConns w' = tlsConns w1" "nonTLSConns w' = nonTLSConns w1"
      using fallback_effect by blast
    have "tlsConns w1 = tlsConns w" "nonTLSConns w1 = nonTLSConns w"
      using pass(1) by (simp_all add: chans_def)
    with k have "one_send w r w'" by (simp add: one_send_def)
    moreover have "run_middles [pattern_middle http_peekPattern [4, 5, 6, 7, 8] 0 send_nonTLS, fallback] c w
        = Some (r, w')"
      using run pass(2) fb by simp
    ultimately show ?thesis by blast
  next
    case panic
    then show ?thesis using run by (simp add: one_send_def chans_def)
  next
    case taken
    then show ?thesis using run by (simp add: one_send_def)
  qed
qed

lemma chain_one_send:
  "\<exists>r w'. run_middles (middles hlisten) c w = Some (r, w') \<and> one_send w r w'"
proof -
  let ?rest = "[pattern_middle http_peekPattern [4, 5, 6, 7, 8] 0 send_nonTLS, fallback]"
  obtain r1 w1 where
    run: "pattern_middle tls_peekPattern [3] 0 send_tls c w = Some (r1, w1)"
    and eff: "(chans w1 = chans w \<and> ((\<exists>c'. r1 = Return (Some c') None) \<or> (\<exists>m. r1 = Panicked m)))
       \<or> (r1 = Return None None \<and> (\<exists>c'. tlsConns w1 = tlsConns w @ [c'])
            \<and> nonTLSConns w1 = nonTLSConns w)"
    by (rule tls_classifier_effect)
  from eff consider
      (pass) c1 where "chans w1 = chans w" "r1 = Return (Some c1) None"
    | (panic) m where "chans w1 = chans w" "r1 = Panicked m"
    | (taken) "r1 = Return None None" "\<exists>c'. tlsConns w1 = tlsConns w @ [c']"
        "nonTLSConns w1 = nonTLSConns w"
    by blast
  then show ?thesis
  proof cases
    case pass
    obtain r w' where rest: "run_middles ?rest c1 w1 = Some (r, w')" and o: "one_send w1 r w'"
      using http_then_fallback by blast
    have "tlsConns w1 = tlsConns w" "nonTLSConns w1 = nonTLSConns w"
      using pass(1) by (simp_all add: chans_def)
    with o have "one_send w r w'" by (simp add: one_send_def)
    moreover have "run_middles (middles hlisten) c w = Some (r, w')"
      using run pass(2) rest by (simp add: middles_hlisten)
    ultimately show ?thesis by blast
  next
    case panic
    then show ?thesis using run by (simp add: middles_hlisten one_send_def chans_def)
  next
    case taken
    then show ?thesis using run by (simp add: middles_hlisten one_send_def)
  qed
qed

text \<open>
  \<open>listener.Accept\<close> of the listener of \<open>New\<close>, when it returns: the two channels
  have received at most one connection for each connection it took from the underlying
  listener.
\<close>

lemma Accept_sends_at_most_one_each:
  "Accept hlisten pending w = Some (r, rest, w') \<Longrightarrow>
   length (tlsConns w') + length (nonTLSConns w') + length rest
     \<le> length (tlsConns w) + length (nonTLSConns w) + length pending"
proof (induction pending arbitrary: w)
  case Nil
  then show ?case by simp
next
  case (Cons a pending)
  show ?case
  proof (cases a)
    case (Inl err)
    with Cons.prems show ?thesis by auto
  next
    case (Inr raw)
    let ?c = "if features_peekConn_enable hlisten then PeekC (NewPeekConn raw) else Raw raw"
    obtain r1 w1 where run: "run_middles (middles hlisten) ?c w = Some (r1, w1)"
      and o: "one_send w r1 w1"
      using chain_one_send by blast
    from o have grow: "length (tlsConns w1) + length (nonTLSConns w1)
        \<le> length (tlsConns w) + length (nonTLSConns w) + 1"
      by (auto simp: one_send_def)
    show ?thesis
    proof (cases "r1 = Taken")
      case True
      with Cons.prems Inr run have "Accept hlisten pending w1 = Some (r, rest, w')"
        by (simp add: Let_def)
      from Cons.IH [OF this] grow show ?thesis by simp
    next
      case False
      with Cons.prems Inr run have "rest = pending" "w' = w1"
        by (cases r1; simp add: Let_def)+
      moreover from o False have "tlsConns w1 = tlsConns w" "nonTLSConns w1 = nonTLSConns w"
        by (auto simp: one_send_def)
      ultimately show ?thesis by simp
    qed
  qed
qed

text \<open>
  C5. For every connection and every state of the channels, the middleware chain that
  \<open>New\<close> installs returns, and it has then either sent nothing on the TLS channel and
  the plaintext channel, or taken the connection and sent one connection on exactly one
  of the two, the other channel being as before.
\<close>

theorem classifier_disjoint:
  "\<exists>r w'. run_middles (middles hlisten) c w = Some (r, w')
     \<and> ((tlsConns w' = tlsConns w \<and> nonTLSConns w' = nonTLSConns w)
        \<or> (r = Taken \<and> (\<exists>c'. tlsConns w' = tlsConns w @ [c'])
             \<and> nonTLSConns w' = nonTLSConns w)
        \<or> (r = Taken \<and> tlsConns w' = tlsConns w
             \<and> (\<exists>c'. nonTLSConns w' = nonTLSConns w @ [c'])))"
  using chain_one_send [of c w] by (simp add: one_send_def)

theorem classifier_disjoint_witness:
  "run_middles (middles hlisten) (PeekC (NewPeekConn conn_get)) world0 \<noteq> None
   \<and> length (tlsConns (snd (the (run_middles (middles hlisten) (PeekC (NewPeekConn conn_get)) world0))))
     + length (nonTLSConns (snd (the (run_middles (middles hlisten) (PeekC (NewPeekConn conn_get)) world0))))
     \<le> 1"
proof -
  from classifier_disjoint [of "PeekC (NewPeekConn conn_get)" world0] obtain r w' where
    "run_middles (middles hlisten) (PeekC (NewPeekConn conn_get)) world0 = Some (r, w')"
    "(tlsConns w' = tlsConns world0 \<and> nonTLSConns w' = nonTLSConns world0)
     \<or> (r = Taken \<and> (\<exists>c'. tlsConns w' = tlsConns world0 @ [c'])
          \<and> nonTLSConns w' = nonTLSConns world0)
     \<or> (r = Taken \<and> tlsConns w' = tlsConns world0
          \<and> (\<exists>c'. nonTLSConns w' = nonTLSConns world0 @ [c']))"
    by blast
  then show ?thesis by (auto simp: world0_def)
qed

text \<open>
  C4 (the code departs from the claim). The first 8 bytes \<open>GET / HT\<close> of the
  connection begin with a method token and a space, and the pattern of the HTTP classifier
  matches them; yet the classifier, run on the fresh connection, does not send it on the
  plaintext channel but hands it on, having taken 8 bytes from it, because \<open>Peek\<close>
  reports 0 bytes. The pattern itself is not anchored either: it matches \<open>xxGETxxx\<close>
  and \<open>CONNECTx\<close>, which do not begin with a method token followed by a space.
\<close>

theorem http_request_not_classified:
  "Regexp_Match http_peekPattern ''GET / HT''
   \<and> pattern_middle http_peekPattern [4, 5, 6, 7, 8] 0 send_nonTLS
         (PeekC (NewPeekConn conn_get)) world0 \<noteq> None
   \<and> fst (the (pattern_middle http_peekPattern [4, 5, 6, 7, 8] 0 send_nonTLS
                  (PeekC (NewPeekConn conn_get)) world0))
       = Return (Some (PatternC \<lparr>Conn = conn_get\<lparr>incoming := [''TP/1.1'']\<rparr>,
                                 peeked = Slice ''GET / HT'' 0\<rparr> 0)) None
   \<and> nonTLSConns (snd (the (pattern_middle http_peekPattern [4, 5, 6, 7, 8] 0 send_nonTLS
                               (PeekC (NewPeekConn conn_get)) world0))) = []
   \<and> Regexp_Match http_peekPattern ''xxGETxxx''
   \<and> Regexp_Match http_peekPattern ''CONNECTx''"
  by code_simp

section \<open>Properties of the HAR parsers\<close>

lemma parsePostData_keeps: "snd (parsePostData req) = req"
  by (cases "req_Body req") (simp_all add: parsePostData_def Let_def)

lemma parseRequest_Some:
  "\<exists>h. parseRequest L (Some req) = (Some h, Some req)
     \<and> hreq_Headers h = parseStringArrMap (req_Header req)
     \<and> hreq_QueryString h = parseStringArrMap (URL_Query (req_URL req))"
  using parsePostData_keeps [of req]
  by (auto simp: parseRequest_def Let_def split: prod.splits)

lemma parseResponse_returned:
  assumes "parseResponse L (Some resp0) = Inr (hresp, r3)"
  shows "\<exists>resp. r3 = Some resp \<and> resp_Header resp = resp_Header resp0
           \<and> resp_StatusCode resp = resp_StatusCode resp0 \<and> resp_Status resp = resp_Status resp0"
  using assms
  by (auto simp: parseResponse_def Let_def split: option.splits sum.splits prod.splits if_splits)

text \<open>\<open>parseResponse\<close> panics only on a response that does not carry its request.\<close>

lemma parseResponse_panic:
  "parseResponse L (Some resp0) = Inl msg \<Longrightarrow> resp_Request resp0 = None"
  by (auto simp: parseResponse_def Let_def split: option.splits sum.splits prod.splits if_splits)

lemma parseResponse_total:
  assumes "resp_Request resp0 \<noteq> None"
  shows "\<exists>hresp resp. parseResponse L (Some resp0) = Inr (hresp, Some resp)"
proof (cases "parseResponse L (Some resp0)")
  case (Inl msg)
  with assms parseResponse_panic [of L resp0 msg] show ?thesis by simp
next
  case (Inr p)
  obtain hresp r3 where "p = (hresp, r3)" by (cases p)
  with Inr parseResponse_returned [of L resp0 hresp r3] show ?thesis by auto
qed

lemma parseResponse_Headers:
  "parseResponse L (Some resp) = Inr (Some h, r') \<Longrightarrow>
   hresp_Headers h = parseStringArrMap (resp_Header resp)"
  by (auto simp: parseResponse_def Let_def split: option.splits sum.splits prod.splits if_splits)

text \<open>The loop of \<open>parseStringArrMap\<close> fills the slots from \<open>index\<close> on, in order.\<close>

lemma fill_pairs_eq:
  "i + length m \<le> length out \<Longrightarrow>
   fill_pairs m i out = take i out @ map unescaped_pair m @ drop (i + length m) out"
proof (induction m arbitrary: i out)
  case Nil
  then show ?case by simp
next
  case (Cons kv m)
  obtain k v where kv: "kv = (k, v)" by (cases kv)
  let ?p = "unescaped_pair (k, v)"
  have len: "Suc i + length m \<le> length (out[i := ?p])" using Cons.prems by simp
  have i: "i < length out" using Cons.prems by simp
  have "take (Suc i) (out[i := ?p]) = take i out @ [?p]"
    using i by (simp add: take_Suc_conv_app_nth)
  moreover have "drop (Suc i + length m) (out[i := ?p]) = drop (Suc (i + length m)) out"
    by simp
  moreover have "fill_pairs (kv # m) i out = fill_pairs m (Suc i) (out[i := ?p])"
    by (simp add: kv Let_def unescaped_pair_def)
  ultimately show ?case
    using Cons.IH [OF len] by (simp add: kv)
qed

lemma parseStringArrMap_eq: "parseStringArrMap m = map unescaped_pair m"
  by (simp add: parseStringArrMap_def fill_pairs_eq)

text \<open>\<open>url.ParseQuery\<close> on a query of one setting \<open>k=v\<close> without malformed escapes.\<close>

lemma strings_Cut_absent: "sep \<notin> set s \<Longrightarrow> strings_Cut sep s = (s, [])"
  by (induction s) auto

lemma strings_Cut_first: "sep \<notin> set a \<Longrightarrow> strings_Cut sep (a @ sep # b) = (a, b)"
  by (induction a) auto

lemma QueryUnescape_wellformed: "bad_escape s = None \<Longrightarrow> QueryUnescape s = (unescape_bytes s, None)"
  by (simp add: QueryUnescape_def)

lemma ParseQuery_single:
  assumes "k \<noteq> []" and "set k \<inter> {CHR ''&'', CHR '';'', CHR ''=''} = {}"
    and "set v \<inter> {CHR ''&'', CHR '';''} = {}"
    and "bad_escape k = None" and "bad_escape v = None"
  shows "ParseQuery (k @ ''='' @ v) = [(fst (QueryUnescape k), [fst (QueryUnescape v)])]"
proof -
  let ?q = "k @ ''='' @ v"
  have amp: "strings_Cut CHR ''&'' ?q = (?q, [])"
    using assms(2,3) by (intro strings_Cut_absent) auto
  have eq: "strings_Cut CHR ''='' ?q = (k, v)"
    using assms(2) strings_Cut_first [of "CHR ''=''" k v] by auto
  have semi: "CHR '';'' \<notin> set ?q"
    using assms(2,3) by auto
  have ne: "?q \<noteq> []" by simp
  have last: "parseQuery m [] = m" for m
    by (subst parseQuery.simps) simp
  show ?thesis
    unfolding ParseQuery_def
    by (subst parseQuery.simps)
       (simp only: ne amp eq semi last Let_def fst_conv snd_conv if_False if_True
          QueryUnescape_wellformed [OF assms(4)] QueryUnescape_wellformed [OF assms(5)]
          simp_thms map_of.simps option.case AList.update.simps append_Nil)
qed

text \<open>
  \<open>addEntry\<close> with one entry appends it; it panics only for an entry without a request.
\<close>

lemma addEntry_panic:
  "fst (addEntry harLog [e]) =
     (case Request e of
        None \<Rightarrow> Some ''invalid memory address or nil pointer dereference''
      | Some r \<Rightarrow> None)"
  by (simp add: addEntry_def Let_def split: option.splits)


section \<open>Properties of the recording round-tripper\<close>

lemma canonical_keys:
  "CanonicalMIMEHeaderKey ''Accept-Encoding'' = ''Accept-Encoding''"
  "CanonicalMIMEHeaderKey ''Webkit-CSP'' = ''Webkit-Csp''"
  "CanonicalMIMEHeaderKey ''Content-Security-Policy'' = ''Content-Security-Policy''"
  "CanonicalMIMEHeaderKey ''X-Webkit-CSP'' = ''X-Webkit-Csp''"
  "CanonicalMIMEHeaderKey ''X-Content-Security-Policy'' = ''X-Content-Security-Policy''"
  "CanonicalMIMEHeaderKey ''X-Request-Error'' = ''X-Request-Error''"
  by code_simp+

lemma RoundTrip_error:
  assumes "Transport m (sent_request req0) = Inl e"
  shows "RoundTrip L m req0 =
           Inr \<lparr>rt_resp = Some (create502Response (sent_request req0) e), rt_err = None, rt_m = m,
                rt_written = None\<rparr>"
proof -
  obtain h where "parseRequest L (Some (sent_request req0)) = (Some h, Some (sent_request req0))"
    using parseRequest_Some by blast
  with assms show ?thesis
    by (simp add: RoundTrip_def Let_def sent_request_def)
qed

lemma fillIpAddress_Request: "Request (fillIpAddress L req e) = Request e"
proof -
  have "Request (first_IPv4 ips e') = Request e'" for ips e'
    by (induction ips) auto
  then show ?thesis
    by (auto simp: fillIpAddress_def Let_def split: option.splits sum.splits prod.splits)
qed

lemma recorded_entry_Request: "Request (recorded_entry L req0 hresp) \<noteq> None"
  using parseRequest_Some [of L "sent_request req0"]
  by (auto simp: recorded_entry_def fillIpAddress_Request)

text \<open>A panic of \<open>parseResponse\<close> leaves \<open>RoundTrip\<close>.\<close>

lemma RoundTrip_panic:
  assumes ok: "Transport m (sent_request req0) = Inr resp0"
    and ps: "parseResponse L (Some resp0) = Inl msg"
  shows "RoundTrip L m req0 = Inl msg"
proof -
  obtain h where "parseRequest L (Some (sent_request req0)) = (Some h, Some (sent_request req0))"
    using parseRequest_Some by blast
  with ok ps show ?thesis
    by (simp add: RoundTrip_def Let_def sent_request_def [symmetric])
qed

text \<open>
  What \<open>RoundTrip\<close> returns when the transport answers with a response and
  \<open>parseResponse\<close> returns: without a HAR file, and with one.
\<close>

lemma RoundTrip_success_nofile:
  assumes ok: "Transport m (sent_request req0) = Inr resp0"
    and ps: "parseResponse L (Some resp0) = Inr (hresp, Some resp)"
    and nofile: "harFile m = []"
  shows "RoundTrip L m req0 =
           Inr \<lparr>rt_resp = Some (resp\<lparr>resp_Header := replace_csp (resp_Header resp)\<rparr>),
                rt_err = None, rt_m = m, rt_written = None\<rparr>"
proof -
  obtain h where "parseRequest L (Some (sent_request req0)) = (Some h, Some (sent_request req0))"
    using parseRequest_Some by blast
  with ok ps nofile show ?thesis
    by (simp add: RoundTrip_def Let_def sent_request_def [symmetric])
qed

lemma RoundTrip_success_har:
  assumes ok: "Transport m (sent_request req0) = Inr resp0"
    and ps: "parseResponse L (Some resp0) = Inr (hresp, Some resp)"
    and hasfile: "harFile m \<noteq> []"
  shows "\<exists>r harLog'. RoundTrip L m req0 = Inr r
           \<and> rt_resp r = Some (resp\<lparr>resp_Header := replace_csp (resp_Header resp)\<rparr>)
           \<and> rt_err r = None
           \<and> addEntry (Log (Har m)) [recorded_entry L req0 hresp] = (None, harLog')
           \<and> rt_m r = m\<lparr>Har := (Har m)\<lparr>Log := harLog'\<rparr>\<rparr>"
proof -
  obtain h where pr: "parseRequest L (Some (sent_request req0)) = (Some h, Some (sent_request req0))"
    using parseRequest_Some by blast
  let ?e = "recorded_entry L req0 hresp"
  have "fst (addEntry (Log (Har m)) [?e]) = None"
    using recorded_entry_Request [of L req0 hresp] by (auto simp: addEntry_panic)
  then obtain harLog' where ae: "addEntry (Log (Har m)) [?e] = (None, harLog')"
    by (cases "addEntry (Log (Har m)) [?e]") auto
  have e5: "fillIpAddress L (sent_request req0)
     (zero_HarEntry\<lparr>Request := Some h, StartedDateTime := now L 0,
        Timings := (Timings (zero_HarEntry\<lparr>Request := Some h, StartedDateTime := now L 0\<rparr>))
           \<lparr>Send := millis (now L 1 - now L 0)\<rparr>,
        Response := hresp,
        Timings := (Timings (zero_HarEntry\<lparr>Request := Some h, StartedDateTime := now L 0\<rparr>))
           \<lparr>Send := millis (now L 1 - now L 0), Receive := millis (now L 3 - now L 2)\<rparr>,
        Time := millis (now L 4 - now L 0)\<rparr>) = ?e"
    by (simp add: recorded_entry_def pr)
  show ?thesis
    using hasfile ok pr ps ae e5
    by (simp add: RoundTrip_def Let_def sent_request_def [symmetric])
qed

lemma RoundTrip_success_resp:
  assumes ok: "Transport m (sent_request req0) = Inr resp0"
    and ps: "parseResponse L (Some resp0) = Inr (hresp, Some resp)"
  shows "\<exists>r. RoundTrip L m req0 = Inr r \<and> rt_err r = None
           \<and> rt_resp r = Some (resp\<lparr>resp_Header := replace_csp (resp_Header resp)\<rparr>)"
proof (cases "harFile m = []")
  case True
  from RoundTrip_success_nofile [OF ok ps True] show ?thesis by simp
next
  case False
  from RoundTrip_success_har [OF ok ps False] show ?thesis by blast
qed

text \<open>
  When the transport answers with a response, a \<open>RoundTrip\<close> that returns has returned
  that response with the policy headers replaced; and it does return when the response
  carries its request.
\<close>

lemma RoundTrip_returned:
  assumes ok: "Transport m (sent_request req0) = Inr resp0"
    and ret: "RoundTrip L m req0 = Inr r"
  shows "\<exists>hresp resp. parseResponse L (Some resp0) = Inr (hresp, Some resp)
           \<and> rt_err r = None
           \<and> rt_resp r = Some (resp\<lparr>resp_Header := replace_csp (resp_Header resp)\<rparr>)"
proof (cases "parseResponse L (Some resp0)")
  case (Inl msg)
  from RoundTrip_panic [OF ok Inl] ret show ?thesis by simp
next
  case (Inr p)
  obtain hresp r3 where p: "p = (hresp, r3)" by (cases p)
  with Inr parseResponse_returned [of L resp0 hresp r3] obtain resp where
    ps: "parseResponse L (Some resp0) = Inr (hresp, Some resp)" by auto
  from RoundTrip_success_resp [OF ok ps] ret ps show ?thesis by auto
qed

lemma RoundTrip_returns:
  assumes ok: "Transport m (sent_request req0) = Inr resp0"
    and req: "resp_Request resp0 \<noteq> None"
  shows "\<exists>r. RoundTrip L m req0 = Inr r"
proof -
  from parseResponse_total [OF req] obtain hresp resp where
    "parseResponse L (Some resp0) = Inr (hresp, Some resp)" by blast
  from RoundTrip_success_resp [OF ok this] show ?thesis by blast
qed


lemma replace_csp_values:
  assumes "name \<in> {''Content-Security-Policy'', ''X-Content-Security-Policy'',
                    ''Webkit-CSP'', ''X-Webkit-CSP''}"
  shows "Header_Values (replace_csp h) name
           = [''default-src * blob: data: 'unsafe-inline' 'unsafe-eval';'']"
  using assms
  by (auto simp: replace_csp_def Let_def Header_Add_def Header_Del_def Header_Values_def
      canonical_keys update_conv' delete_conv' contentSecurityPolicy_def)

lemma sent_request_headers:
  "Header_Values (req_Header (sent_request req0)) ''Accept-Encoding'' = [''gzip, deflate'']"
  "k \<noteq> ''Accept-Encoding'' \<Longrightarrow>
     map_of (req_Header (sent_request req0)) k = map_of (req_Header req0) k"
  "sent_request req0 = req0\<lparr>req_Header := req_Header (sent_request req0)\<rparr>"
  by (simp_all add: sent_request_def Header_Set_def Header_Values_def canonical_keys update_conv')



text \<open>
  The panic of \<open>parseResponse\<close> at work: a response that announces \<open>gzip\<close>, whose
  body does not open, and that carries no request makes \<open>RoundTrip\<close> panic.
\<close>

lemma RoundTrip_panics_without_request:
  "isl (RoundTrip lib0 (NewHTTPTransport (\<lambda>req. Inr resp_torn) ''proxy.har'') req_get)"
  by code_simp

text \<open>
  C3. When the embedded transport answers the request with an error, \<open>RoundTrip\<close>
  returns a nil error and a response with status 502 whose header
  \<open>X-Request-Error\<close> has the text of the error as its one value.
\<close>

theorem bad_gateway_on_transport_error:
  assumes "Transport m (sent_request req0) = Inl e"
  shows "\<exists>r resp. RoundTrip L m req0 = Inr r \<and> rt_err r = None \<and> rt_resp r = Some resp
           \<and> resp_StatusCode resp = 502
           \<and> Header_Values (resp_Header resp) ''X-Request-Error'' = [e]
           \<and> Header_Get (resp_Header resp) ''X-Request-Error'' = e"
  using RoundTrip_error [OF assms, of L]
  by (simp add: create502Response_def StatusBadGateway_def Header_Values_def Header_Get_def
      canonical_keys)

theorem bad_gateway_on_transport_error_witness:
  "Transport m_down (sent_request req_get) = Inl ''dial tcp 192.0.2.7:80: connect: connection refused''
   \<and> rt_err (projr (RoundTrip lib0 m_down req_get)) = None
   \<and> resp_StatusCode (the (rt_resp (projr (RoundTrip lib0 m_down req_get)))) = 502
   \<and> Header_Get (resp_Header (the (rt_resp (projr (RoundTrip lib0 m_down req_get))))) ''X-Request-Error''
       = ''dial tcp 192.0.2.7:80: connect: connection refused''"
proof -
  have h: "Transport m_down (sent_request req_get)
             = Inl ''dial tcp 192.0.2.7:80: connect: connection refused''"
    by (simp add: m_down_def NewHTTPTransport_def transport_down_def)
  from bad_gateway_on_transport_error [OF h, of lib0] obtain r resp where
    "RoundTrip lib0 m_down req_get = Inr r" "rt_err r = None" "rt_resp r = Some resp"
    "resp_StatusCode resp = 502"
    "Header_Get (resp_Header resp) ''X-Request-Error''
       = ''dial tcp 192.0.2.7:80: connect: connection refused''"
    by blast
  with h show ?thesis by simp
qed

text \<open>
  C9. The request that the embedded transport is asked to answer has \<open>gzip, deflate\<close>
  as the one value of \<open>Accept-Encoding\<close>, whatever the client sent; every other key of
  its header map has the values it had, and nothing else of the request has changed. It is
  this request that is forwarded: what \<open>RoundTrip\<close> returns is made from the answer of
  the transport to it, the 502 response with the transport's error if it is an error, and
  otherwise, whenever \<open>RoundTrip\<close> returns, the transport's response with its status
  (\<open>RoundTrip\<close> does return when that response carries its request).
\<close>

theorem accept_encoding_overwritten:
  "Header_Values (req_Header (sent_request req0)) ''Accept-Encoding'' = [''gzip, deflate'']
   \<and> (\<forall>k. k \<noteq> ''Accept-Encoding'' \<longrightarrow>
          map_of (req_Header (sent_request req0)) k = map_of (req_Header req0) k)
   \<and> sent_request req0 = req0\<lparr>req_Header := req_Header (sent_request req0)\<rparr>
   \<and> (\<forall>e. Transport m (sent_request req0) = Inl e \<longrightarrow>
          (\<exists>r resp. RoundTrip L m req0 = Inr r \<and> rt_resp r = Some resp
             \<and> resp_StatusCode resp = 502
             \<and> resp_Request resp = Some (sent_request req0)
             \<and> Header_Values (resp_Header resp) ''X-Request-Error'' = [e]))
   \<and> (\<forall>resp0. Transport m (sent_request req0) = Inr resp0 \<longrightarrow>
          (\<forall>r. RoundTrip L m req0 = Inr r \<longrightarrow>
             (\<exists>resp. rt_resp r = Some resp
                \<and> resp_StatusCode resp = resp_StatusCode resp0
                \<and> resp_Status resp = resp_Status resp0
                \<and> resp_Header resp = replace_csp (resp_Header resp0)))
          \<and> (resp_Request resp0 \<noteq> None \<longrightarrow> (\<exists>r. RoundTrip L m req0 = Inr r)))"
proof -
  have err: "\<forall>e. Transport m (sent_request req0) = Inl e \<longrightarrow>
          (\<exists>r resp. RoundTrip L m req0 = Inr r \<and> rt_resp r = Some resp
             \<and> resp_StatusCode resp = 502
             \<and> resp_Request resp = Some (sent_request req0)
             \<and> Header_Values (resp_Header resp) ''X-Request-Error'' = [e])"
  proof (intro allI impI)
    fix e assume "Transport m (sent_request req0) = Inl e"
    from RoundTrip_error [OF this, of L]
    show "\<exists>r resp. RoundTrip L m req0 = Inr r \<and> rt_resp r = Some resp
             \<and> resp_StatusCode resp = 502
             \<and> resp_Request resp = Some (sent_request req0)
             \<and> Header_Values (resp_Header resp) ''X-Request-Error'' = [e]"
      by (simp add: create502Response_def StatusBadGateway_def Header_Values_def canonical_keys)
  qed
  have ok: "\<forall>resp0. Transport m (sent_request req0) = Inr resp0 \<longrightarrow>
          (\<forall>r. RoundTrip L m req0 = Inr r \<longrightarrow>
             (\<exists>resp. rt_resp r = Some resp
                \<and> resp_StatusCode resp = resp_StatusCode resp0
                \<and> resp_Status resp = resp_Status resp0
                \<and> resp_Header resp = replace_csp (resp_Header resp0)))
          \<and> (resp_Request resp0 \<noteq> None \<longrightarrow> (\<exists>r. RoundTrip L m req0 = Inr r))"
  proof (intro allI impI conjI)
    fix resp0 r
    assume t: "Transport m (sent_request req0) = Inr resp0" and ret: "RoundTrip L m req0 = Inr r"
    from RoundTrip_returned [OF t ret] obtain hresp resp where
      ps: "parseResponse L (Some resp0) = Inr (hresp, Some resp)"
      and r: "rt_resp r = Some (resp\<lparr>resp_Header := replace_csp (resp_Header resp)\<rparr>)"
      by blast
    from parseResponse_returned [OF ps]
    have "resp_Header resp = resp_Header resp0" "resp_StatusCode resp = resp_StatusCode resp0"
      "resp_Status resp = resp_Status resp0"
      by auto
    with r show "\<exists>resp. rt_resp r = Some resp
                \<and> resp_StatusCode resp = resp_StatusCode resp0
                \<and> resp_Status resp = resp_Status resp0
                \<and> resp_Header resp = replace_csp (resp_Header resp0)"
      by simp
  next
    fix resp0
    assume "Transport m (sent_request req0) = Inr resp0" and "resp_Request resp0 \<noteq> None"
    then show "\<exists>r. RoundTrip L m req0 = Inr r" by (rule RoundTrip_returns)
  qed
  show ?thesis
    using sent_request_headers(1) sent_request_headers(2) sent_request_headers(3) err ok
    by blast
qed

theorem accept_encoding_overwritten_witness:
  "map_of (req_Header req_get) ''Accept-Encoding'' = Some [''br'']
   \<and> Transport m_picky req_get = Inl ''unexpected request''
   \<and> Transport m_picky (sent_request req_get) = Inr resp_ok
   \<and> resp_Request resp_ok \<noteq> None
   \<and> \<not> isl (RoundTrip lib0 m_picky req_get)
   \<and> resp_StatusCode (the (rt_resp (projr (RoundTrip lib0 m_picky req_get)))) = 200
   \<and> ''User-Agent'' \<noteq> ''Accept-Encoding''
   \<and> map_of (req_Header (sent_request req_get)) ''User-Agent'' = Some [''curl/8.0'']
   \<and> Transport m_down (sent_request req_get)
        = Inl ''dial tcp 192.0.2.7:80: connect: connection refused''
   \<and> Header_Values (resp_Header (the (rt_resp (projr (RoundTrip lib0 m_down req_get)))))
        ''X-Request-Error'' = [''dial tcp 192.0.2.7:80: connect: connection refused'']"
proof -
  note p = accept_encoding_overwritten [of req_get m_picky lib0]
  note d = accept_encoding_overwritten [of req_get m_down lib0]
  have br: "map_of (req_Header req_get) ''Accept-Encoding'' = Some [''br'']"
    by (simp add: req_get_def)
  then have no: "Transport m_picky req_get = Inl ''unexpected request''"
    by (simp add: m_picky_def NewHTTPTransport_def transport_picky_def)
  have ua0: "map_of (req_Header req_get) ''User-Agent'' = Some [''curl/8.0'']"
    by (simp add: req_get_def)
  with p have ua: "map_of (req_Header (sent_request req_get)) ''User-Agent'' = Some [''curl/8.0'']"
    by simp
  from p have "Header_Values (req_Header (sent_request req_get)) ''Accept-Encoding''
      = [''gzip, deflate'']" by blast
  then have ae: "map_of (req_Header (sent_request req_get)) ''Accept-Encoding''
      = Some [''gzip, deflate'']"
    by (simp add: Header_Values_def canonical_keys split: option.splits)
  have yes: "Transport m_picky (sent_request req_get) = Inr resp_ok"
    using ae ua by (simp add: m_picky_def NewHTTPTransport_def transport_picky_def)
  have rq: "resp_Request resp_ok \<noteq> None"
    by (simp add: resp_ok_def)
  from p yes rq obtain r where r: "RoundTrip lib0 m_picky req_get = Inr r" by blast
  with p yes obtain resp where "rt_resp r = Some resp" "resp_StatusCode resp = resp_StatusCode resp_ok"
    by blast
  then have st: "resp_StatusCode (the (rt_resp (projr (RoundTrip lib0 m_picky req_get)))) = 200"
    using r by (simp add: resp_ok_def)
  have down: "Transport m_down (sent_request req_get)
        = Inl ''dial tcp 192.0.2.7:80: connect: connection refused''"
    by (simp add: m_down_def NewHTTPTransport_def transport_down_def)
  with d obtain r' resp' where "RoundTrip lib0 m_down req_get = Inr r'" "rt_resp r' = Some resp'"
    "Header_Values (resp_Header resp') ''X-Request-Error''
       = [''dial tcp 192.0.2.7:80: connect: connection refused'']"
    by blast
  with br no yes rq r st ua down show ?thesis by simp
qed

text \<open>
  C6. When the embedded transport answers with a response, every response that
  \<open>RoundTrip\<close> returns has the policy
  \<open>default-src * blob: data: 'unsafe-inline' 'unsafe-eval';\<close> as the one value of each
  of the four headers \<open>Content-Security-Policy\<close>, \<open>X-Content-Security-Policy\<close>,
  \<open>Webkit-CSP\<close> and \<open>X-Webkit-CSP\<close>, whatever the upstream sent under these names;
  and \<open>RoundTrip\<close> does return when the transport's response carries its request.
\<close>

theorem csp_headers_replaced:
  assumes "Transport m (sent_request req0) = Inr resp0"
  shows "(\<forall>r. RoundTrip L m req0 = Inr r \<longrightarrow>
            rt_err r = None
            \<and> (\<exists>resp. rt_resp r = Some resp
                 \<and> (\<forall>name \<in> {''Content-Security-Policy'', ''X-Content-Security-Policy'',
                                ''Webkit-CSP'', ''X-Webkit-CSP''}.
                       Header_Values (resp_Header resp) name
                         = [''default-src * blob: data: 'unsafe-inline' 'unsafe-eval';''])))
         \<and> (resp_Request resp0 \<noteq> None \<longrightarrow> (\<exists>r. RoundTrip L m req0 = Inr r))"
proof (intro conjI allI impI)
  fix r assume ret: "RoundTrip L m req0 = Inr r"
  from RoundTrip_returned [OF assms ret] obtain hresp resp where
    e: "rt_err r = None"
    and r: "rt_resp r = Some (resp\<lparr>resp_Header := replace_csp (resp_Header resp)\<rparr>)"
    by blast
  show "rt_err r = None" by (rule e)
  have "\<forall>name \<in> {''Content-Security-Policy'', ''X-Content-Security-Policy'',
                   ''Webkit-CSP'', ''X-Webkit-CSP''}.
          Header_Values (resp_Header (resp\<lparr>resp_Header := replace_csp (resp_Header resp)\<rparr>)) name
            = [''default-src * blob: data: 'unsafe-inline' 'unsafe-eval';'']"
    using replace_csp_values by simp
  with r show "\<exists>resp. rt_resp r = Some resp
                 \<and> (\<forall>name \<in> {''Content-Security-Policy'', ''X-Content-Security-Policy'',
                                ''Webkit-CSP'', ''X-Webkit-CSP''}.
                       Header_Values (resp_Header resp) name
                         = [''default-src * blob: data: 'unsafe-inline' 'unsafe-eval';''])"
    by blast
next
  assume "resp_Request resp0 \<noteq> None"
  with assms show "\<exists>r. RoundTrip L m req0 = Inr r" by (rule RoundTrip_returns)
qed

theorem csp_headers_replaced_witness:
  "Transport m_ok (sent_request req_get) = Inr resp_ok
   \<and> resp_Request resp_ok \<noteq> None
   \<and> \<not> isl (RoundTrip lib0 m_ok req_get)
   \<and> Header_Values (resp_Header resp_ok) ''Content-Security-Policy'' = [''default-src none'']
   \<and> Header_Values (resp_Header (the (rt_resp (projr (RoundTrip lib0 m_ok req_get)))))
        ''Content-Security-Policy''
        = [''default-src * blob: data: 'unsafe-inline' 'unsafe-eval';'']
   \<and> Header_Values (resp_Header (the (rt_resp (projr (RoundTrip lib0 m_ok req_get)))))
        ''X-Webkit-CSP''
        = [''default-src * blob: data: 'unsafe-inline' 'unsafe-eval';'']"
proof -
  have h: "Transport m_ok (sent_request req_get) = Inr resp_ok"
    by (simp add: m_ok_def NewHTTPTransport_def transport_ok_def)
  have rq: "resp_Request resp_ok \<noteq> None"
    by (simp add: resp_ok_def)
  note t = csp_headers_replaced [OF h, of lib0]
  from t rq obtain r where r: "RoundTrip lib0 m_ok req_get = Inr r" by blast
  with t obtain resp where
    "rt_resp r = Some resp"
    "\<forall>name \<in> {''Content-Security-Policy'', ''X-Content-Security-Policy'',
                   ''Webkit-CSP'', ''X-Webkit-CSP''}.
          Header_Values (resp_Header resp) name
            = [''default-src * blob: data: 'unsafe-inline' 'unsafe-eval';'']"
    by blast
  moreover have "Header_Values (resp_Header resp_ok) ''Content-Security-Policy'' = [''default-src none'']"
    by (simp add: resp_ok_def Header_Values_def canonical_keys)
  ultimately show ?thesis using h rq r by simp
qed




text \<open>
  C10 as stated does not hold for the query string: the wire value \<open>a%2Bb\<close> of the
  parameter \<open>q\<close>, whose query-unescape is \<open>a+b\<close>, is recorded as \<open>a b\<close>.
\<close>

theorem query_value_unescaped_twice:
  "URL_RawQuery (req_URL req_get) = ''q=a%2Bb''
   \<and> fst (QueryUnescape ''a%2Bb'') = ''a+b''
   \<and> fst (parseRequest lib0 (Some req_get)) \<noteq> None
   \<and> hreq_QueryString (the (fst (parseRequest lib0 (Some req_get))))
       = [\<lparr>nv_Name = ''q'', nv_Value = ''a b''\<rparr>]"
  by code_simp

text \<open>
  C10, amended. \<open>parseStringArrMap\<close> stores one pair per name: the string that
  \<open>url.QueryUnescape\<close> returns for the name, and the string it returns for the values
  joined with commas (the empty string when the text has a malformed escape). The headers
  of a HAR request and of a HAR response are the pairs of the header map; the query
  string of a HAR request is the pairs of \<open>URL.Query()\<close>, which has already unescaped the
  wire text once, so that the name and value of a single well-formed setting \<open>k=v\<close> are
  recorded unescaped twice.
\<close>

theorem har_pairs_query_unescaped:
  "parseStringArrMap m = map unescaped_pair m
   \<and> (\<exists>h. fst (parseRequest L (Some req)) = Some h
         \<and> hreq_Headers h = map unescaped_pair (req_Header req)
         \<and> hreq_QueryString h = map unescaped_pair (ParseQuery (URL_RawQuery (req_URL req))))
   \<and> (\<forall>h r'. parseResponse L (Some resp) = Inr (Some h, r')
         \<longrightarrow> hresp_Headers h = map unescaped_pair (resp_Header resp))
   \<and> (k \<noteq> [] \<and> set k \<inter> {CHR ''&'', CHR '';'', CHR ''=''} = {}
        \<and> set v \<inter> {CHR ''&'', CHR '';''} = {} \<and> bad_escape k = None \<and> bad_escape v = None
      \<longrightarrow> map unescaped_pair (ParseQuery (k @ ''='' @ v))
            = [\<lparr>nv_Name = fst (QueryUnescape (fst (QueryUnescape k))),
                nv_Value = fst (QueryUnescape (fst (QueryUnescape v)))\<rparr>])"
proof -
  have "\<exists>h. fst (parseRequest L (Some req)) = Some h
         \<and> hreq_Headers h = map unescaped_pair (req_Header req)
         \<and> hreq_QueryString h = map unescaped_pair (ParseQuery (URL_RawQuery (req_URL req)))"
    using parseRequest_Some [of L req] by (auto simp: parseStringArrMap_eq URL_Query_def)
  moreover have "\<forall>h r'. parseResponse L (Some resp) = Inr (Some h, r')
         \<longrightarrow> hresp_Headers h = map unescaped_pair (resp_Header resp)"
    using parseResponse_Headers by (simp add: parseStringArrMap_eq)
  moreover have "k \<noteq> [] \<and> set k \<inter> {CHR ''&'', CHR '';'', CHR ''=''} = {}
        \<and> set v \<inter> {CHR ''&'', CHR '';''} = {} \<and> bad_escape k = None \<and> bad_escape v = None
      \<longrightarrow> map unescaped_pair (ParseQuery (k @ ''='' @ v))
            = [\<lparr>nv_Name = fst (QueryUnescape (fst (QueryUnescape k))),
                nv_Value = fst (QueryUnescape (fst (QueryUnescape v)))\<rparr>]"
  proof
    assume a: "k \<noteq> [] \<and> set k \<inter> {CHR ''&'', CHR '';'', CHR ''=''} = {}
        \<and> set v \<inter> {CHR ''&'', CHR '';''} = {} \<and> bad_escape k = None \<and> bad_escape v = None"
    then have "ParseQuery (k @ ''='' @ v) = [(fst (QueryUnescape k), [fst (QueryUnescape v)])]"
      by (intro ParseQuery_single) simp_all
    then show "map unescaped_pair (ParseQuery (k @ ''='' @ v))
            = [\<lparr>nv_Name = fst (QueryUnescape (fst (QueryUnescape k))),
                nv_Value = fst (QueryUnescape (fst (QueryUnescape v)))\<rparr>]"
      by (simp add: unescaped_pair_def)
  qed
  ultimately show ?thesis
    using parseStringArrMap_eq by blast
qed

theorem har_pairs_query_unescaped_witness:
  "parseStringArrMap [(''X%2dNote'', [''a%20b+c'', ''d'']), (''X-Rate'', [''100%''])]
     = [\<lparr>nv_Name = ''X-Note'', nv_Value = ''a b c,d''\<rparr>, \<lparr>nv_Name = ''X-Rate'', nv_Value = []\<rparr>]
   \<and> \<not> isl (parseResponse lib0 (Some resp_ok))
   \<and> fst (projr (parseResponse lib0 (Some resp_ok))) \<noteq> None
   \<and> hresp_Headers (the (fst (projr (parseResponse lib0 (Some resp_ok)))))
       = [\<lparr>nv_Name = ''Content-Security-Policy'', nv_Value = ''default-src none''\<rparr>,
          \<lparr>nv_Name = ''Content-Type'', nv_Value = ''text/plain''\<rparr>]
   \<and> ''q'' \<noteq> [] \<and> set ''q'' \<inter> {CHR ''&'', CHR '';'', CHR ''=''} = {}
   \<and> set ''a%2Bb'' \<inter> {CHR ''&'', CHR '';''} = {}
   \<and> bad_escape ''q'' = None \<and> bad_escape ''a%2Bb'' = None
   \<and> map unescaped_pair (ParseQuery ''q=a%2Bb'') = [\<lparr>nv_Name = ''q'', nv_Value = ''a b''\<rparr>]"
proof -
  note t = har_pairs_query_unescaped
    [of "[(''X%2dNote'', [''a%20b+c'', ''d'']), (''X-Rate'', [''100%''])]"
        lib0 req_get resp_ok "''q''" "''a%2Bb''"]
  have pre: "''q'' \<noteq> [] \<and> set ''q'' \<inter> {CHR ''&'', CHR '';'', CHR ''=''} = {}
       \<and> set ''a%2Bb'' \<inter> {CHR ''&'', CHR '';''} = {}
       \<and> bad_escape ''q'' = None \<and> bad_escape ''a%2Bb'' = None"
    by (simp add: ishex_def between_def)
  with t have q: "map unescaped_pair (ParseQuery (''q'' @ ''='' @ ''a%2Bb''))
            = [\<lparr>nv_Name = fst (QueryUnescape (fst (QueryUnescape ''q''))),
                nv_Value = fst (QueryUnescape (fst (QueryUnescape ''a%2Bb'')))\<rparr>]"
    by blast
  have u: "fst (QueryUnescape (fst (QueryUnescape ''q''))) = ''q''"
    "fst (QueryUnescape (fst (QueryUnescape ''a%2Bb''))) = ''a b''"
    by code_simp+
  have some: "\<not> isl (parseResponse lib0 (Some resp_ok))
              \<and> fst (projr (parseResponse lib0 (Some resp_ok))) \<noteq> None"
    by code_simp
  then obtain h r' where h: "parseResponse lib0 (Some resp_ok) = Inr (Some h, r')"
    by (cases "parseResponse lib0 (Some resp_ok)") auto
  with t have "hresp_Headers h = map unescaped_pair (resp_Header resp_ok)" by blast
  moreover have "map unescaped_pair (resp_Header resp_ok)
       = [\<lparr>nv_Name = ''Content-Security-Policy'', nv_Value = ''default-src none''\<rparr>,
          \<lparr>nv_Name = ''Content-Type'', nv_Value = ''text/plain''\<rparr>]"
    by code_simp
  moreover from t have "parseStringArrMap [(''X%2dNote'', [''a%20b+c'', ''d'']), (''X-Rate'', [''100%''])]
     = map unescaped_pair [(''X%2dNote'', [''a%20b+c'', ''d'']), (''X-Rate'', [''100%''])]"
    by blast
  moreover have "map unescaped_pair [(''X%2dNote'', [''a%20b+c'', ''d'']), (''X-Rate'', [''100%''])]
     = [\<lparr>nv_Name = ''X-Note'', nv_Value = ''a b c,d''\<rparr>, \<lparr>nv_Name = ''X-Rate'', nv_Value = []\<rparr>]"
    by code_simp
  ultimately show ?thesis
    using h pre q u by simp
qed

text \<open>
  What \<open>fillIpAddress\<close> records. The host is resolved whether or not it is a literal:
  an IPv4 address at the head of the resolution is recorded in its text form in either
  case, and a literal is left recorded, as its bytes, only when the resolution has no
  IPv4 address.
\<close>

lemma first_IPv4_none: "\<forall>a \<in> set ips. To4 a = None \<Longrightarrow> first_IPv4 ips e = e"
  by (induction ips) auto

lemma fillIpAddress_resolved:
  assumes "host = (case SplitHostPort L (URL_Host (req_URL req)) of
                     None \<Rightarrow> URL_Host (req_URL req) | Some (h, port) \<Rightarrow> h)"
    and "LookupIP L host = Inr (a # ips)" and "To4 a \<noteq> None"
  shows "ServerIpAddress (fillIpAddress L req e) = IP_String a"
  using assms by (auto simp: fillIpAddress_def Let_def split: option.splits)

lemma fillIpAddress_literal:
  assumes "host = (case SplitHostPort L (URL_Host (req_URL req)) of
                     None \<Rightarrow> URL_Host (req_URL req) | Some (h, port) \<Rightarrow> h)"
    and "ParseIP L host = Some ip" and "LookupIP L host = Inr ips"
    and "\<forall>a \<in> set ips. To4 a = None"
  shows "ServerIpAddress (fillIpAddress L req e) = ip"
  using assms by (auto simp: fillIpAddress_def Let_def first_IPv4_none split: option.splits)

text \<open>
  C7 (the code departs from the claim). For the URL host \<open>[::1]:8080\<close>, a literal IP
  address, \<open>fillIpAddress\<close> records the 16 bytes of the address, not its text
  \<open>::1\<close>: the literal is stored with \<open>string(ip)\<close>, and the host is resolved all the
  same, which leaves the stored bytes in place as the resolution has no IPv4 address.
\<close>

theorem literal_ipv6_recorded_as_raw_bytes:
  "SplitHostPort lib0 (URL_Host (req_URL req_v6)) = Some (''::1'', ''8080'')
   \<and> ParseIP lib0 ''::1'' = Some loopback6
   \<and> LookupIP lib0 ''::1'' = Inr [loopback6]
   \<and> ServerIpAddress (fillIpAddress lib0 req_v6 zero_HarEntry)
       = replicate 15 (CHR 0x00) @ [CHR 0x01]
   \<and> ServerIpAddress (fillIpAddress lib0 req_v6 zero_HarEntry) \<noteq> ''::1''"
  by code_simp

end
